theory Spec2Isabelle
  imports Main "HOL-Library.Word"
begin

section \<open>Task service (package services)\<close>

text \<open>
  The task table lives in a relational database behind an object-relational mapper.
  The model keeps the table as the list of its rows and a flag that says whether the
  database answers at all; when it does not, every statement fails with an error other
  than "record not found". Identifiers are Go's \<open>uint\<close>, points of time are integers.
\<close>

type_synonym time = int

type_synonym uint = "64 word"

record Task =
  ID :: uint
  UserID :: uint
  Title :: string
  Description :: string
  DueDate :: "time option"
  Priority :: string
  Status :: string
  CreatedAt :: time
  UpdatedAt :: time
  DeletedAt :: "time option"

record TaskRequest =
  Title :: string
  Description :: string
  DueDate :: "time option"
  Priority :: string
  UserID :: uint

record TaskStatusRequest =
  Status :: string
  UserID :: uint

record TaskFilterOptions =
  UserID :: uint
  Status :: string
  Priority :: string
  SortBy :: string
  Order :: string
  Page :: int
  PageSize :: int

record PaginatedTasksResponse =
  Tasks :: "Task list"
  CurrentPage :: int
  PageSize :: int
  TotalItems :: int
  TotalPages :: int

record database =
  rows :: "Task list"
  available :: bool

datatype gormError = ErrRecordNotFound | ErrOther

datatype taskError =
    TaskNotFound
  | FailedToRetrieveTask
  | FailedToUpdateTask
  | FailedToUpdateTaskStatus
  | FailedToDeleteTask
  | FailedToCountTasks
  | FailedToRetrieveTasks

subsection \<open>The statements the service sends\<close>

text \<open>Rows with the soft-delete mark are invisible to every statement.\<close>

definition live :: "Task \<Rightarrow> bool" where
  "live t \<longleftrightarrow> Task.DeletedAt t = None"

text \<open>\<open>Where("id = ? AND user_id = ?", taskID, userID).First(&task)\<close>\<close>

definition First_id_user :: "database \<Rightarrow> uint \<Rightarrow> uint \<Rightarrow> gormError + Task" where
  "First_id_user db taskID userID =
     (if \<not> available db then Inl ErrOther
      else case find (\<lambda>t. live t \<and> Task.ID t = taskID \<and> Task.UserID t = userID) (rows db) of
             None \<Rightarrow> Inl ErrRecordNotFound
           | Some t \<Rightarrow> Inr t)"

text \<open>
  \<open>Save(task)\<close> writes all fields of the row with the primary key of \<open>task\<close> and stamps
  the time of the update.
\<close>

definition Save :: "database \<Rightarrow> time \<Rightarrow> Task \<Rightarrow> gormError + database" where
  "Save db now task =
     (if \<not> available db then Inl ErrOther
      else Inr (db\<lparr>rows :=
             map (\<lambda>t. if live t \<and> Task.ID t = Task.ID task
                      then task\<lparr>Task.UpdatedAt := now\<rparr> else t) (rows db)\<rparr>))"

text \<open>\<open>Delete(task)\<close> is a soft delete: the row gets the mark and stays in the table.\<close>

definition Delete :: "database \<Rightarrow> time \<Rightarrow> Task \<Rightarrow> gormError + database" where
  "Delete db now task =
     (if \<not> available db then Inl ErrOther
      else Inr (db\<lparr>rows :=
             map (\<lambda>t. if live t \<and> Task.ID t = Task.ID task
                      then t\<lparr>Task.DeletedAt := Some now\<rparr> else t) (rows db)\<rparr>))"

text \<open>
  The query of \<open>GetTasks\<close>: \<open>Where("user_id = ?")\<close> and the two optional filters.
\<close>

definition matching :: "database \<Rightarrow> uint \<Rightarrow> string \<Rightarrow> string \<Rightarrow> Task list" where
  "matching db userID status priority =
     filter (\<lambda>t. live t \<and> Task.UserID t = userID
                 \<and> (status = [] \<or> Task.Status t = status)
                 \<and> (priority = [] \<or> Task.Priority t = priority)) (rows db)"

definition Count :: "database \<Rightarrow> uint \<Rightarrow> string \<Rightarrow> string \<Rightarrow> gormError + int" where
  "Count db userID status priority =
     (if \<not> available db then Inl ErrOther
      else Inr (int (length (matching db userID status priority))))"

text \<open>
  \<open>Order(clause).Limit(n).Offset(k).Find(&tasks)\<close>. What the database makes of the text
  of the order clause is the argument \<open>orderBy\<close>: \<open>None\<close> when it rejects the clause,
  else the comparison it sorts by. An offset that is not positive is not sent.
\<close>

fun insertRow :: "(Task \<Rightarrow> Task \<Rightarrow> bool) \<Rightarrow> Task \<Rightarrow> Task list \<Rightarrow> Task list" where
  "insertRow le t [] = [t]"
| "insertRow le t (u # us) = (if le t u then t # u # us else u # insertRow le t us)"

definition orderRows :: "(Task \<Rightarrow> Task \<Rightarrow> bool) \<Rightarrow> Task list \<Rightarrow> Task list" where
  "orderRows le ts = foldr (insertRow le) ts []"

definition Find ::
  "(string \<Rightarrow> (Task \<Rightarrow> Task \<Rightarrow> bool) option) \<Rightarrow> database \<Rightarrow> uint \<Rightarrow> string \<Rightarrow> string
     \<Rightarrow> string \<Rightarrow> int \<Rightarrow> int \<Rightarrow> gormError + Task list" where
  "Find orderBy db userID status priority clause limit offset =
     (if \<not> available db then Inl ErrOther
      else case orderBy clause of
             None \<Rightarrow> Inl ErrOther
           | Some le \<Rightarrow>
               Inr (take (nat limit)
                      (drop (nat offset) (orderRows le (matching db userID status priority)))))"

subsection \<open>The service functions\<close>

definition GetTaskByID :: "database \<Rightarrow> uint \<Rightarrow> uint \<Rightarrow> taskError + Task" where
  "GetTaskByID db taskID userID =
     (case First_id_user db taskID userID of
        Inl ErrRecordNotFound \<Rightarrow> Inl TaskNotFound
      | Inl ErrOther \<Rightarrow> Inl FailedToRetrieveTask
      | Inr task \<Rightarrow> Inr task)"

text \<open>
  The functions that write return the outcome and the database after the call; on an
  error nothing was written.
\<close>

definition UpdateTask ::
  "database \<Rightarrow> time \<Rightarrow> uint \<Rightarrow> TaskRequest \<Rightarrow> (taskError + Task) \<times> database" where
  "UpdateTask db now taskID req =
     (case GetTaskByID db taskID (TaskRequest.UserID req) of
        Inl err \<Rightarrow> (Inl err, db)
      | Inr task \<Rightarrow>
          let task1 = task\<lparr>Task.Title := TaskRequest.Title req,
                           Task.Description := TaskRequest.Description req,
                           Task.DueDate := TaskRequest.DueDate req\<rparr>;
              task2 = (if TaskRequest.Priority req \<noteq> []
                       then task1\<lparr>Task.Priority := TaskRequest.Priority req\<rparr> else task1)
          in (case Save db now task2 of
                Inl _ \<Rightarrow> (Inl FailedToUpdateTask, db)
              | Inr db' \<Rightarrow> (Inr (task2\<lparr>Task.UpdatedAt := now\<rparr>), db')))"

definition UpdateTaskStatus ::
  "database \<Rightarrow> time \<Rightarrow> uint \<Rightarrow> TaskStatusRequest \<Rightarrow> (taskError + Task) \<times> database" where
  "UpdateTaskStatus db now taskID req =
     (case GetTaskByID db taskID (TaskStatusRequest.UserID req) of
        Inl err \<Rightarrow> (Inl err, db)
      | Inr task \<Rightarrow>
          let task1 = task\<lparr>Task.Status := TaskStatusRequest.Status req\<rparr>
          in (case Save db now task1 of
                Inl _ \<Rightarrow> (Inl FailedToUpdateTaskStatus, db)
              | Inr db' \<Rightarrow> (Inr (task1\<lparr>Task.UpdatedAt := now\<rparr>), db')))"

definition DeleteTask ::
  "database \<Rightarrow> time \<Rightarrow> uint \<Rightarrow> uint \<Rightarrow> taskError option \<times> database" where
  "DeleteTask db now taskID userID =
     (case GetTaskByID db taskID userID of
        Inl err \<Rightarrow> (Some err, db)
      | Inr task \<Rightarrow>
          (case Delete db now task of
             Inl _ \<Rightarrow> (Some FailedToDeleteTask, db)
           | Inr db' \<Rightarrow> (None, db')))"

text \<open>
  \<open>GetTasks\<close>. \<open>Page\<close> and \<open>PageSize\<close> are Go's \<open>int\<close>; the product for the offset wraps
  at 64 bits.
\<close>

definition GetTasks ::
  "(string \<Rightarrow> (Task \<Rightarrow> Task \<Rightarrow> bool) option) \<Rightarrow> database \<Rightarrow> TaskFilterOptions
     \<Rightarrow> taskError + PaginatedTasksResponse" where
  "GetTasks orderBy db options =
     (let page = (if TaskFilterOptions.Page options < 1 then 1
                  else TaskFilterOptions.Page options);
          pageSize = (if TaskFilterOptions.PageSize options < 1 then 10
                      else if TaskFilterOptions.PageSize options > 100 then 100
                      else TaskFilterOptions.PageSize options);
          offset = sint (word_of_int ((page - 1) * pageSize) :: 64 word);
          userID = TaskFilterOptions.UserID options;
          status = TaskFilterOptions.Status options;
          priority = TaskFilterOptions.Priority options;
          sortBy = (if TaskFilterOptions.SortBy options \<noteq> []
                    then TaskFilterOptions.SortBy options else ''created_at'');
          order = (if TaskFilterOptions.Order options \<noteq> []
                   then TaskFilterOptions.Order options else ''desc'')
      in case Count db userID status priority of
           Inl _ \<Rightarrow> Inl FailedToCountTasks
         | Inr totalTasks \<Rightarrow>
             (case Find orderBy db userID status priority (sortBy @ '' '' @ order)
                     pageSize offset of
                Inl _ \<Rightarrow> Inl FailedToRetrieveTasks
              | Inr tasks \<Rightarrow>
                  Inr \<lparr>Tasks = tasks, CurrentPage = page,
                       PaginatedTasksResponse.PageSize = pageSize,
                       TotalItems = totalTasks,
                       TotalPages = (totalTasks + pageSize - 1) div pageSize\<rparr>))"

section \<open>Session authority (package utils, session variant)\<close>

text \<open>
  The session table of the source is the package-level map \<open>activeSessions\<close> from
  session identifiers to \<open>sessionData\<close>. Every function that touches it is modelled
  with the table passed in and handed back. Points of time are integers (nanoseconds on
  one time line); \<open>time.Now()\<close> is an argument of each operation. The lock around the map
  is not modelled: each operation is taken as one sequential step.
\<close>

record sessionData =
  UserID :: uint
  ExpiresAt :: time

type_synonym store = "string \<rightharpoonup> sessionData"

text \<open>
  The errors of the session functions. \<open>Error\<close> gives the text of \<open>err.Error()\<close> where
  the source fixes it; the two wrapped errors carry the text of their cause, which the
  model leaves out.
\<close>

datatype error =
    RandomBytesFailed
  | InvalidExpiresIn
  | EmptySessionID
  | InvalidSession
  | SessionExpired

fun Error :: "error \<Rightarrow> string" where
  "Error RandomBytesFailed = ''failed to generate random bytes: ''"
| "Error InvalidExpiresIn = ''invalid JWT_EXPIRES_IN value: ''"
| "Error EmptySessionID = ''empty session ID''"
| "Error InvalidSession = ''invalid session''"
| "Error SessionExpired = ''session expired''"

text \<open>\<open>t.After(u)\<close> of Go's \<open>time\<close>: \<open>t\<close> is strictly later than \<open>u\<close>.\<close>

definition After :: "time \<Rightarrow> time \<Rightarrow> bool" where
  "After t u \<longleftrightarrow> u < t"

text \<open>
  \<open>ValidateToken\<close>: the empty identifier is refused first, then the table is read; an
  entry whose expiry lies strictly before \<open>now\<close> is deleted and reported as expired.
\<close>

definition ValidateToken :: "string \<Rightarrow> time \<Rightarrow> store \<Rightarrow> (error + uint) \<times> store" where
  "ValidateToken sessionID now st =
     (if sessionID = [] then (Inl EmptySessionID, st)
      else case st sessionID of
             None \<Rightarrow> (Inl InvalidSession, st)
           | Some session \<Rightarrow>
               if After now (ExpiresAt session)
               then (Inl SessionExpired, st(sessionID := None))
               else (Inr (UserID session), st))"

text \<open>
  \<open>CleanupSessions\<close>: the \<open>range\<close> loop over the table. Go visits the keys in an order
  it does not specify, so the order is the argument \<open>ids\<close>; a key that is no longer in the
  table when its turn comes is skipped.
\<close>

fun CleanupSessions :: "time \<Rightarrow> string list \<Rightarrow> store \<Rightarrow> store" where
  "CleanupSessions now [] st = st"
| "CleanupSessions now (sid # ids) st =
     CleanupSessions now ids
       (case st sid of
          None \<Rightarrow> st
        | Some session \<Rightarrow> if After now (ExpiresAt session) then st(sid := None) else st)"

text \<open>
  The ticker loop of \<open>scheduleSessionCleanup\<close> (main.go) calls \<open>CleanupSessions\<close> once
  per tick and never returns; the model runs a finite run of ticks, each with the time
  read by that call and the order in which its loop visits the keys.
\<close>

fun scheduleSessionCleanup :: "(time \<times> string list) list \<Rightarrow> store \<Rightarrow> store" where
  "scheduleSessionCleanup [] st = st"
| "scheduleSessionCleanup ((now, ids) # ticks) st =
     scheduleSessionCleanup ticks (CleanupSessions now ids st)"

subsection \<open>Library functions used by \<open>GenerateToken\<close>\<close>

text \<open>
  \<open>base64.URLEncoding.EncodeToString\<close>: three bytes give four characters of the URL
  alphabet; a rest of one or two bytes is padded with \<open>=\<close>.
\<close>

definition encodeURL :: string where
  "encodeURL = ''ABCDEFGHIJKLMNOPQRSTUVWXYZabcdefghijklmnopqrstuvwxyz0123456789-_''"

fun EncodeToString :: "8 word list \<Rightarrow> string" where
  "EncodeToString [] = []"
| "EncodeToString [a] =
     (let val = unat a * 65536
      in [encodeURL ! (val div 262144 mod 64), encodeURL ! (val div 4096 mod 64),
          CHR ''='', CHR ''=''])"
| "EncodeToString [a, b] =
     (let val = unat a * 65536 + unat b * 256
      in [encodeURL ! (val div 262144 mod 64), encodeURL ! (val div 4096 mod 64),
          encodeURL ! (val div 64 mod 64), CHR ''=''])"
| "EncodeToString (a # b # c # src) =
     (let val = unat a * 65536 + unat b * 256 + unat c
      in [encodeURL ! (val div 262144 mod 64), encodeURL ! (val div 4096 mod 64),
          encodeURL ! (val div 64 mod 64), encodeURL ! (val mod 64)]
         @ EncodeToString src)"

text \<open>\<open>os.Getenv\<close>: the value of the variable, empty when it is not set.\<close>

definition Getenv :: "(string \<rightharpoonup> string) \<Rightarrow> string \<Rightarrow> string" where
  "Getenv env key = (case env key of None \<Rightarrow> [] | Some v \<Rightarrow> v)"

text \<open>
  \<open>time.ParseDuration\<close> of Go's standard library, on byte strings. A duration is a
  number of nanoseconds. The library computes the fractional part of a number in
  \<open>float64\<close>; that one computation is the argument \<open>fl\<close>: \<open>fl f k unit\<close> stands for
  \<open>uint64(float64(f) * (float64(unit) / scale))\<close>, with \<open>scale\<close> the result of \<open>k\<close>
  multiplications by ten. Everything else is unsigned 64-bit arithmetic, written out.
\<close>

type_synonym Duration = int

type_synonym fraction = "nat \<Rightarrow> nat \<Rightarrow> nat \<Rightarrow> nat"

definition Nanosecond :: Duration where "Nanosecond = 1"
definition Microsecond :: Duration where "Microsecond = 1000 * Nanosecond"
definition Millisecond :: Duration where "Millisecond = 1000 * Microsecond"
definition Second :: Duration where "Second = 1000 * Millisecond"
definition Minute :: Duration where "Minute = 60 * Second"
definition Hour :: Duration where "Hour = 60 * Minute"

definition isDigit :: "char \<Rightarrow> bool" where
  "isDigit c \<longleftrightarrow> 48 \<le> (of_char c :: nat) \<and> (of_char c :: nat) \<le> 57"

definition digitVal :: "char \<Rightarrow> nat" where
  "digitVal c = of_char c - 48"

fun leadingInt_loop :: "nat \<Rightarrow> string \<Rightarrow> (nat \<times> string) option" where
  "leadingInt_loop x [] = Some (x, [])"
| "leadingInt_loop x (c # s) =
     (if \<not> isDigit c then Some (x, c # s)
      else if x > 2 ^ 63 div 10 then None
      else let x' = x * 10 + digitVal c
           in if x' > 2 ^ 63 then None else leadingInt_loop x' s)"

definition leadingInt :: "string \<Rightarrow> (nat \<times> string) option" where
  "leadingInt s = leadingInt_loop 0 s"

fun leadingFraction_loop :: "nat \<Rightarrow> nat \<Rightarrow> bool \<Rightarrow> string \<Rightarrow> nat \<times> nat \<times> string" where
  "leadingFraction_loop x k overflow [] = (x, k, [])"
| "leadingFraction_loop x k overflow (c # s) =
     (if \<not> isDigit c then (x, k, c # s)
      else if overflow then leadingFraction_loop x k True s
      else if x > (2 ^ 63 - 1) div 10 then leadingFraction_loop x k True s
      else let y = x * 10 + digitVal c
           in if y > 2 ^ 63 then leadingFraction_loop x k True s
              else leadingFraction_loop y (Suc k) False s)"

definition leadingFraction :: "string \<Rightarrow> nat \<times> nat \<times> string" where
  "leadingFraction s = leadingFraction_loop 0 0 False s"

definition unitMap :: "string \<Rightarrow> nat option" where
  "unitMap u =
     (if u = ''ns'' then Some 1
      else if u = ''us'' then Some 1000
      else if u = [CHR 0xC2, CHR 0xB5, CHR ''s''] then Some 1000
      else if u = [CHR 0xCE, CHR 0xBC, CHR ''s''] then Some 1000
      else if u = ''ms'' then Some 1000000
      else if u = ''s'' then Some 1000000000
      else if u = ''m'' then Some 60000000000
      else if u = ''h'' then Some 3600000000000
      else None)"

definition isUnitByte :: "char \<Rightarrow> bool" where
  "isUnitByte c \<longleftrightarrow> \<not> (c = CHR ''.'' \<or> isDigit c)"

text \<open>
  The optional fraction \<open>(\.[0-9]*)?\<close>: its digits as a number, the count of the
  multiplications of \<open>scale\<close>, the rest of the string, and whether a digit was read.
\<close>

definition fractionPart :: "string \<Rightarrow> nat \<times> nat \<times> string \<times> bool" where
  "fractionPart s =
     (case s of
        [] \<Rightarrow> (0, 0, s, False)
      | c # r \<Rightarrow>
          if c = CHR ''.''
          then (case leadingFraction r of (f, k, s') \<Rightarrow> (f, k, s', length r \<noteq> length s'))
          else (0, 0, s, False))"

text \<open>
  One round of the loop of \<open>ParseDuration\<close>: a number, an optional fraction and a unit.
  The result is the value of the term in nanoseconds and the rest of the string.
\<close>

definition parseTerm :: "fraction \<Rightarrow> string \<Rightarrow> (nat \<times> string) option" where
  "parseTerm fl s =
     (case s of
        [] \<Rightarrow> None
      | c # _ \<Rightarrow>
          (if \<not> (c = CHR ''.'' \<or> isDigit c) then None
           else (case leadingInt s of
             None \<Rightarrow> None
           | Some (v, s1) \<Rightarrow>
               (case fractionPart s1 of
                  (f, k, s2, post) \<Rightarrow>
                    (if length s = length s1 \<and> \<not> post then None
                     else let u = takeWhile isUnitByte s2; s3 = dropWhile isUnitByte s2
                          in (if u = [] then None
                              else (case unitMap u of
                                None \<Rightarrow> None
                              | Some unit \<Rightarrow>
                                  (if v > 2 ^ 63 div unit then None
                                   else if f > 0
                                     then let v' = (v * unit + fl f k unit) mod 2 ^ 64
                                          in (if v' > 2 ^ 63 then None else Some (v', s3))
                                     else Some (v * unit, s3)))))))))"

lemma leadingInt_loop_length:
  "leadingInt_loop x s = Some (v, r) \<Longrightarrow> length r \<le> length s"
  by (induction x s rule: leadingInt_loop.induct) (auto simp: Let_def split: if_splits)

lemma leadingFraction_loop_length:
  "leadingFraction_loop x k ov s = (f, k', r) \<Longrightarrow> length r \<le> length s"
  by (induction x k ov s rule: leadingFraction_loop.induct) (auto simp: Let_def split: if_splits)

lemma fractionPart_length:
  "fractionPart s = (f, k, r, post) \<Longrightarrow> length r \<le> length s"
  by (auto simp: fractionPart_def leadingFraction_def split: list.splits if_splits prod.splits
        dest!: leadingFraction_loop_length)

lemma dropWhile_shorter:
  "takeWhile P xs \<noteq> [] \<Longrightarrow> length (dropWhile P xs) < length xs"
  by (cases xs) (auto simp: le_imp_less_Suc length_dropWhile_le split: if_splits)

lemma parseTerm_length:
  assumes "parseTerm fl s = Some (v, r)"
  shows "length r < length s"
proof -
  from assms obtain v0 s1 f k s2 post where
    li: "leadingInt s = Some (v0, s1)" and
    fp: "fractionPart s1 = (f, k, s2, post)" and
    u: "takeWhile isUnitByte s2 \<noteq> []" and
    r: "r = dropWhile isUnitByte s2"
    unfolding parseTerm_def
    by (auto simp: Let_def split: list.splits if_splits option.splits prod.splits)
  from li have "length s1 \<le> length s"
    by (simp add: leadingInt_def leadingInt_loop_length)
  moreover from fp have "length s2 \<le> length s1"
    by (rule fractionPart_length)
  moreover from u r have "length r < length s2"
    by (simp add: dropWhile_shorter)
  ultimately show ?thesis by simp
qed

function ParseDuration_loop :: "fraction \<Rightarrow> nat \<Rightarrow> string \<Rightarrow> nat option" where
  "ParseDuration_loop fl d s =
     (if s = [] then Some d
      else case parseTerm fl s of
        None \<Rightarrow> None
      | Some (v, r) \<Rightarrow>
          let d' = (d + v) mod 2 ^ 64
          in if d' > 2 ^ 63 then None else ParseDuration_loop fl d' r)"
  by pat_completeness auto
termination
  by (relation "measure (\<lambda>(fl, d, s). length s)") (auto dest: parseTerm_length)

definition ParseDuration :: "fraction \<Rightarrow> string \<Rightarrow> Duration option" where
  "ParseDuration fl s =
     (let neg = (case s of c # _ \<Rightarrow> c = CHR ''-'' | [] \<Rightarrow> False);
          s1 = (case s of c # r \<Rightarrow> if c = CHR ''-'' \<or> c = CHR ''+'' then r else s
                | [] \<Rightarrow> s)
      in if s1 = ''0'' then Some 0
         else if s1 = [] then None
         else case ParseDuration_loop fl 0 s1 of
           None \<Rightarrow> None
         | Some d \<Rightarrow>
             if neg then Some (- int d)
             else if d > 2 ^ 63 - 1 then None
             else Some (int d))"

text \<open>\<open>t.Add(d)\<close> of Go's \<open>time\<close>, on the integer time line.\<close>

definition Add :: "time \<Rightarrow> Duration \<Rightarrow> time" where
  "Add t d = t + d"

subsection \<open>\<open>GenerateToken\<close>\<close>

text \<open>
  \<open>rnd\<close> is the outcome of \<open>rand.Read\<close> on the buffer of 32 bytes: \<open>None\<close> when it
  returns an error, \<open>Some b\<close> with the bytes it wrote otherwise. \<open>env\<close> is the process
  environment and \<open>now\<close> the time read when the entry is stored.
\<close>

definition GenerateToken ::
  "fraction \<Rightarrow> 8 word list option \<Rightarrow> (string \<rightharpoonup> string) \<Rightarrow> time \<Rightarrow> uint \<Rightarrow> store
     \<Rightarrow> (error + string) \<times> store" where
  "GenerateToken fl rnd env now userID st =
     (case rnd of
        None \<Rightarrow> (Inl RandomBytesFailed, st)
      | Some b \<Rightarrow>
          let sessionID = EncodeToString b;
              expiresInStr = (if Getenv env ''JWT_EXPIRES_IN'' = [] then ''24h''
                              else Getenv env ''JWT_EXPIRES_IN'')
          in (case ParseDuration fl expiresInStr of
                None \<Rightarrow> (Inl InvalidExpiresIn, st)
              | Some expiresIn \<Rightarrow>
                  (Inr sessionID,
                   st(sessionID \<mapsto> \<lparr>UserID = userID, ExpiresAt = Add now expiresIn\<rparr>))))"

declare ParseDuration_loop.simps [simp del]

section \<open>Configuration (package config)\<close>

text \<open>
  \<open>strings.ContainsAny\<close> for a set of ASCII characters: some byte of \<open>s\<close> is one of
  \<open>chars\<close>.
\<close>

definition ContainsAny :: "string \<Rightarrow> string \<Rightarrow> bool" where
  "ContainsAny s chars = list_ex (\<lambda>c. c \<in> set chars) s"

definition getDurationEnvOrDefault ::
  "fraction \<Rightarrow> (string \<rightharpoonup> string) \<Rightarrow> string \<Rightarrow> Duration \<Rightarrow> Duration" where
  "getDurationEnvOrDefault fl env key defaultValue =
     (let value = Getenv env key
      in if value = [] then defaultValue
         else let value' = (if \<not> ContainsAny value ''hms'' then value @ ''h'' else value)
              in (case ParseDuration fl value' of
                    None \<Rightarrow> defaultValue
                  | Some duration \<Rightarrow> duration))"

text \<open>The field \<open>JWT.ExpiresIn\<close> as \<open>Load\<close> fills it.\<close>

definition JWT_ExpiresIn :: "fraction \<Rightarrow> (string \<rightharpoonup> string) \<Rightarrow> Duration" where
  "JWT_ExpiresIn fl env = getDurationEnvOrDefault fl env ''JWT_EXPIRES_IN'' (24 * Hour)"

section \<open>Request authentication (package middlewares)\<close>

text \<open>
  \<open>strings.TrimSpace\<close> on byte strings that hold UTF-8: white space is taken off both
  ends, rune by rune. \<open>spaceRunes\<close> lists the UTF-8 forms of the white-space runes of
  \<open>unicode.IsSpace\<close>; the longest has three bytes.
\<close>

definition spaceRunes :: "string list" where
  "spaceRunes =
     [[CHR 0x09], [CHR 0x0A], [CHR 0x0B], [CHR 0x0C], [CHR 0x0D], [CHR 0x20],
      [CHR 0xC2, CHR 0x85], [CHR 0xC2, CHR 0xA0],
      [CHR 0xE1, CHR 0x9A, CHR 0x80],
      [CHR 0xE2, CHR 0x80, CHR 0x80], [CHR 0xE2, CHR 0x80, CHR 0x81],
      [CHR 0xE2, CHR 0x80, CHR 0x82], [CHR 0xE2, CHR 0x80, CHR 0x83],
      [CHR 0xE2, CHR 0x80, CHR 0x84], [CHR 0xE2, CHR 0x80, CHR 0x85],
      [CHR 0xE2, CHR 0x80, CHR 0x86], [CHR 0xE2, CHR 0x80, CHR 0x87],
      [CHR 0xE2, CHR 0x80, CHR 0x88], [CHR 0xE2, CHR 0x80, CHR 0x89],
      [CHR 0xE2, CHR 0x80, CHR 0x8A],
      [CHR 0xE2, CHR 0x80, CHR 0xA8], [CHR 0xE2, CHR 0x80, CHR 0xA9],
      [CHR 0xE2, CHR 0x80, CHR 0xAF], [CHR 0xE2, CHR 0x81, CHR 0x9F],
      [CHR 0xE3, CHR 0x80, CHR 0x80]]"

definition isSpace :: "string \<Rightarrow> bool" where
  "isSpace r \<longleftrightarrow> r \<in> set spaceRunes"

text \<open>The width in bytes of the white-space rune at the front, or at the end; 0 if none.\<close>

definition firstSpace :: "string \<Rightarrow> nat" where
  "firstSpace s =
     (if 1 \<le> length s \<and> isSpace (take 1 s) then 1
      else if 2 \<le> length s \<and> isSpace (take 2 s) then 2
      else if 3 \<le> length s \<and> isSpace (take 3 s) then 3
      else 0)"

definition lastSpace :: "string \<Rightarrow> nat" where
  "lastSpace s =
     (if 1 \<le> length s \<and> isSpace (drop (length s - 1) s) then 1
      else if 2 \<le> length s \<and> isSpace (drop (length s - 2) s) then 2
      else if 3 \<le> length s \<and> isSpace (drop (length s - 3) s) then 3
      else 0)"

function TrimLeftSpace :: "string \<Rightarrow> string" where
  "TrimLeftSpace s =
     (if firstSpace s = 0 then s else TrimLeftSpace (drop (firstSpace s) s))"
  by pat_completeness auto
termination
  by (relation "measure length") (auto simp: firstSpace_def split: if_splits)

function TrimRightSpace :: "string \<Rightarrow> string" where
  "TrimRightSpace s =
     (if lastSpace s = 0 then s else TrimRightSpace (take (length s - lastSpace s) s))"
  by pat_completeness auto
termination
  by (relation "measure length") (auto simp: lastSpace_def split: if_splits)

declare TrimLeftSpace.simps [simp del] TrimRightSpace.simps [simp del]

definition TrimSpace :: "string \<Rightarrow> string" where
  "TrimSpace s = TrimRightSpace (TrimLeftSpace s)"

text \<open>
  \<open>c.GetHeader(key)\<close>: the first value the request carries for the header, empty when
  it carries none.
\<close>

definition GetHeader :: "(string \<rightharpoonup> string list) \<Rightarrow> string \<Rightarrow> string" where
  "GetHeader header key =
     (case header key of None \<Rightarrow> [] | Some [] \<Rightarrow> [] | Some (v # _) \<Rightarrow> v)"

text \<open>
  What the middleware does with the request: it answers with a status and an error
  message and aborts, or it puts the user id and the user row into the context and
  hands on to the next handler.
\<close>

datatype 'u outcome = Abort nat string | Next uint 'u

definition StatusUnauthorized :: nat where
  "StatusUnauthorized = 401"

text \<open>
  \<open>AuthMiddleware\<close> of the session variant. \<open>findUser\<close> is the lookup
  \<open>database.GetDB().First(&user, userID)\<close>, \<open>None\<close> when it reports an error.
\<close>

definition AuthMiddleware ::
  "(uint \<Rightarrow> 'u option) \<Rightarrow> (string \<rightharpoonup> string list) \<Rightarrow> time \<Rightarrow> store \<Rightarrow> 'u outcome \<times> store" where
  "AuthMiddleware findUser header now st =
     (let authHeader = GetHeader header ''Authorization''
      in if authHeader = [] then (Abort StatusUnauthorized ''Authorization header is required'', st)
         else let sessionID = TrimSpace authHeader
              in (case ValidateToken sessionID now st of
                    (Inl err, st') \<Rightarrow>
                      (Abort StatusUnauthorized (''Invalid session: '' @ Error err), st')
                  | (Inr userID, st') \<Rightarrow>
                      (case findUser userID of
                         None \<Rightarrow>
                           (Abort StatusUnauthorized ''User not found or invalid session'', st')
                       | Some user \<Rightarrow> (Next userID user, st'))))"

text \<open>
  \<open>AuthMiddleware\<close> of the token variant (auth.go). Its \<open>ValidateToken\<close> checks a signed
  token with a library; here it is the argument \<open>validate\<close>. An error of that function
  is seen by the middleware through \<open>errors.Is(err, jwt.ErrTokenExpired)\<close> and through
  its text.
\<close>

record tokenError =
  IsErrTokenExpired :: bool
  ErrorText :: string

fun HasPrefix :: "string \<Rightarrow> string \<Rightarrow> bool" where
  "HasPrefix s prefix = (take (length prefix) s = prefix)"

fun TrimPrefix :: "string \<Rightarrow> string \<Rightarrow> string" where
  "TrimPrefix s prefix = (if HasPrefix s prefix then drop (length prefix) s else s)"

fun Contains :: "string \<Rightarrow> string \<Rightarrow> bool" where
  "Contains [] substr = (substr = [])"
| "Contains (c # s) substr = (HasPrefix (c # s) substr \<or> Contains s substr)"

definition AuthMiddleware_token ::
  "(string \<Rightarrow> tokenError + uint) \<Rightarrow> (uint \<Rightarrow> 'u option) \<Rightarrow> (string \<rightharpoonup> string list)
     \<Rightarrow> 'u outcome" where
  "AuthMiddleware_token validate findUser header =
     (let authHeader = GetHeader header ''Authorization''
      in if authHeader = [] then Abort StatusUnauthorized ''Authorization header is required''
         else if \<not> HasPrefix authHeader ''Bearer ''
           then Abort StatusUnauthorized
                  ''Authorization header must be in format: Bearer {token}''
         else let tokenString = TrimPrefix authHeader ''Bearer ''
              in if tokenString = [] then Abort StatusUnauthorized ''Token cannot be empty''
                 else (case validate tokenString of
                    Inl err \<Rightarrow>
                      Abort StatusUnauthorized
                        (if IsErrTokenExpired err \<or> Contains (ErrorText err) ''token expired''
                           then ''Token has expired''
                         else if Contains (ErrorText err) ''signature''
                           then ''Invalid token signature''
                         else if Contains (ErrorText err) ''parsing''
                           then ''Token format is invalid''
                         else ''Invalid token'')
                  | Inr userID \<Rightarrow>
                      (case findUser userID of
                         None \<Rightarrow> Abort StatusUnauthorized ''User not found or invalid token''
                       | Some user \<Rightarrow> Next userID user)))"

section \<open>Notions used to state the properties\<close>

text \<open>
  The number that a string of decimal digits denotes, read from the left with a start
  value.
\<close>

definition decimal_from :: "nat \<Rightarrow> string \<Rightarrow> nat" where
  "decimal_from x ds = foldl (\<lambda>x c. x * 10 + digitVal c) x ds"

definition decimal :: "string \<Rightarrow> nat" where
  "decimal ds = decimal_from 0 ds"

text \<open>
  A value for the argument \<open>fl\<close> of \<open>ParseDuration\<close> in the examples: the fraction
  computed without rounding. The examples parse no fraction, and the general statements
  hold for every \<open>fl\<close>.
\<close>

definition exactFraction :: fraction where
  "exactFraction f k unit = f * unit div 10 ^ k"

text \<open>Data of the examples: a buffer of 32 zero bytes, and a small task table.\<close>

definition zeroBytes :: "8 word list" where
  "zeroBytes = replicate 32 0"

definition exampleRow :: "uint \<Rightarrow> uint \<Rightarrow> Task" where
  "exampleRow taskID userID =
     \<lparr>Task.ID = taskID, Task.UserID = userID, Task.Title = ''title'',
      Task.Description = [], Task.DueDate = None, Task.Priority = ''medium'',
      Task.Status = ''todo'', Task.CreatedAt = 0, Task.UpdatedAt = 0,
      Task.DeletedAt = None\<rparr>"

definition exampleDB :: database where
  "exampleDB = \<lparr>rows = [exampleRow 1 1, exampleRow 2 2], available = True\<rparr>"

definition exampleOptions :: TaskFilterOptions where
  "exampleOptions =
     \<lparr>TaskFilterOptions.UserID = 1, TaskFilterOptions.Status = [],
      TaskFilterOptions.Priority = [], TaskFilterOptions.SortBy = [],
      TaskFilterOptions.Order = [], TaskFilterOptions.Page = 0,
      TaskFilterOptions.PageSize = 0\<rparr>"

section \<open>Lemmas about the model\<close>

lemmas ParseDuration_eval =
  ParseDuration_def ParseDuration_loop.simps parseTerm_def fractionPart_def leadingInt_def
  leadingFraction_def isDigit_def digitVal_def isUnitByte_def unitMap_def Let_def

lemmas Hour_eval = Hour_def Minute_def Second_def Millisecond_def Microsecond_def Nanosecond_def

lemmas TrimSpace_eval =
  TrimSpace_def TrimLeftSpace.simps TrimRightSpace.simps firstSpace_def lastSpace_def
  isSpace_def spaceRunes_def

lemma ParseDuration_24h: "ParseDuration fl ''24h'' = Some (24 * Hour)"
  by (simp add: ParseDuration_eval Hour_eval)

lemma EncodeToString_nonempty: "b \<noteq> [] \<Longrightarrow> EncodeToString b \<noteq> []"
  by (cases b rule: EncodeToString.cases) (simp_all add: Let_def)

lemma CleanupSessions_apply:
  "CleanupSessions now ids st k =
     (case st k of
        None \<Rightarrow> None
      | Some s \<Rightarrow> if k \<in> set ids \<and> After now (ExpiresAt s) then None else Some s)"
  by (induction ids arbitrary: st) (auto split: option.splits)

lemma scheduleSessionCleanup_keeps:
  "st k = Some s \<Longrightarrow> \<forall>(t, ids) \<in> set ticks. t \<le> ExpiresAt s \<Longrightarrow>
   scheduleSessionCleanup ticks st k = Some s"
  by (induction ticks arbitrary: st) (auto simp: CleanupSessions_apply After_def)

subsection \<open>Digit strings in \<open>ParseDuration\<close>\<close>

lemma decimal_from_Cons [simp]:
  "decimal_from x (c # ds) = decimal_from (x * 10 + digitVal c) ds"
  and decimal_from_Nil [simp]: "decimal_from x [] = x"
  by (simp_all add: decimal_from_def)

lemma decimal_from_ge: "x \<le> decimal_from x ds"
proof (induction ds arbitrary: x)
  case Nil
  show ?case by simp
next
  case (Cons c ds)
  have "x \<le> x * 10 + digitVal c" by simp
  also have "\<dots> \<le> decimal_from (x * 10 + digitVal c) ds" by (rule Cons.IH)
  finally show ?case by simp
qed

lemma leadingInt_loop_digits:
  assumes "list_all isDigit ds" and "\<not> isDigit c" and "x \<le> 2 ^ 63"
  shows "leadingInt_loop x (ds @ c # r) =
           (if decimal_from x ds \<le> 2 ^ 63 then Some (decimal_from x ds, c # r) else None)"
  using assms(1,3)
proof (induction ds arbitrary: x)
  case Nil
  with assms(2) show ?case by simp
next
  case (Cons d ds)
  let ?x' = "x * 10 + digitVal d"
  from Cons.prems have d: "isDigit d" and ds: "list_all isDigit ds" by simp_all
  have ge: "?x' \<le> decimal_from ?x' ds" by (rule decimal_from_ge)
  show ?case
  proof (cases "x > 2 ^ 63 div 10")
    case True
    then have "?x' > 2 ^ 63" by simp
    with ge have "decimal_from ?x' ds > 2 ^ 63" by linarith
    with True d show ?thesis by simp
  next
    case False
    show ?thesis
    proof (cases "?x' > 2 ^ 63")
      case True
      with ge have "decimal_from ?x' ds > 2 ^ 63" by linarith
      with True False d show ?thesis by (simp add: Let_def)
    next
      case big: False
      then have "?x' \<le> 2 ^ 63" by simp
      from Cons.IH [OF ds this] big False d show ?thesis by (simp add: Let_def)
    qed
  qed
qed

lemma isDigit_not_special:
  "isDigit c \<Longrightarrow> c \<noteq> CHR ''-'' \<and> c \<noteq> CHR ''+'' \<and> c \<noteq> CHR ''.'' \<and> c \<noteq> CHR ''h''
     \<and> c \<noteq> CHR ''m'' \<and> c \<noteq> CHR ''s''"
  by (auto simp: isDigit_def)

lemma digits_no_unit: "list_all isDigit ds \<Longrightarrow> \<not> ContainsAny ds ''hms''"
  by (auto simp: ContainsAny_def list_ex_iff list_all_iff dest: isDigit_not_special)

lemma parseTerm_digits_h:
  assumes "ds \<noteq> []" and "list_all isDigit ds"
  shows "parseTerm fl (ds @ ''h'') =
           (if decimal ds \<le> 2562047 then Some (decimal ds * 3600000000000, []) else None)"
proof -
  from assms obtain d ds' where ds: "ds = d # ds'" and d: "isDigit d"
    by (cases ds) auto
  have h: "\<not> isDigit CHR ''h''" by (simp add: isDigit_def)
  have li: "leadingInt (ds @ ''h'') =
      (if decimal ds \<le> 2 ^ 63 then Some (decimal ds, ''h'') else None)"
    using leadingInt_loop_digits [OF assms(2) h, of 0 "[]"]
    by (simp add: leadingInt_def decimal_def)
  have fp: "fractionPart ''h'' = (0, 0, ''h'', False)"
    by (simp add: fractionPart_def)
  have u: "takeWhile isUnitByte ''h'' = ''h''" "dropWhile isUnitByte ''h'' = []"
    by (simp_all add: isUnitByte_def isDigit_def)
  have um: "unitMap ''h'' = Some 3600000000000"
    by (simp add: unitMap_def)
  show ?thesis
  proof (cases "decimal ds \<le> 2 ^ 63")
    case True
    with li have "leadingInt (d # ds' @ ''h'') = Some (decimal ds, ''h'')"
      by (simp add: ds)
    with d fp u um show ?thesis
      by (simp add: parseTerm_def ds Let_def)
  next
    case False
    with li have "leadingInt (d # ds' @ ''h'') = None"
      by (simp add: ds)
    moreover from False have "\<not> decimal ds \<le> 2562047" by simp
    ultimately show ?thesis using d
      by (simp add: parseTerm_def ds)
  qed
qed

lemma ParseDuration_digits_h:
  assumes "ds \<noteq> []" and "list_all isDigit ds"
  shows "ParseDuration fl (ds @ ''h'') =
           (if decimal ds \<le> 2562047 then Some (int (decimal ds) * Hour) else None)"
proof -
  from assms obtain d ds' where ds: "ds = d # ds'" and d: "isDigit d"
    by (cases ds) auto
  from d have sign: "d \<noteq> CHR ''-''" "d \<noteq> CHR ''+''"
    by (simp_all add: isDigit_not_special)
  have loop: "ParseDuration_loop fl 0 (ds @ ''h'') =
      (if decimal ds \<le> 2562047 then Some (decimal ds * 3600000000000) else None)"
    by (subst ParseDuration_loop.simps)
       (simp add: parseTerm_digits_h [OF assms] ParseDuration_loop.simps [of fl _ "[]"])
  show ?thesis
    using sign loop by (simp add: ParseDuration_def ds Hour_eval)
qed

subsection \<open>Units in \<open>ParseDuration\<close>\<close>

lemma unitMap_cases:
  "unitMap u = Some m \<Longrightarrow>
     (u, m) \<in> {(''ns'', 1), (''us'', 1000), ([CHR 0xC2, CHR 0xB5, CHR ''s''], 1000),
               ([CHR 0xCE, CHR 0xBC, CHR ''s''], 1000), (''ms'', 1000000),
               (''s'', 1000000000), (''m'', 60000000000), (''h'', 3600000000000)}"
  by (simp add: unitMap_def split: if_splits)

lemma unitMap_shape:
  assumes "unitMap u = Some m"
  shows "u \<noteq> []" and "takeWhile isUnitByte u = u" and "dropWhile isUnitByte u = []"
    and "\<not> isDigit (hd u)" and "hd u \<noteq> CHR ''.''" and "ContainsAny u ''hms''" and "0 < m"
  using unitMap_cases [OF assms]
  by (auto simp: isUnitByte_def isDigit_def ContainsAny_def)

lemma leadingInt_loop_set:
  "leadingInt_loop x s = Some (v, r) \<Longrightarrow> set r \<subseteq> set s"
  by (induction x s rule: leadingInt_loop.induct) (auto simp: Let_def split: if_splits)

lemma leadingFraction_loop_set:
  "leadingFraction_loop x k ov s = (f, k', r) \<Longrightarrow> set r \<subseteq> set s"
  by (induction x k ov s rule: leadingFraction_loop.induct) (auto simp: Let_def split: if_splits)

lemma fractionPart_set:
  "fractionPart s = (f, k, r, post) \<Longrightarrow> set r \<subseteq> set s"
  by (auto simp: fractionPart_def leadingFraction_def split: list.splits if_splits prod.splits
        dest!: leadingFraction_loop_set)



lemma parseTerm_Some_unit:
  assumes "parseTerm fl s = Some (v, r)"
  shows "\<exists>v0 s1 f k s2 post unit. leadingInt s = Some (v0, s1) \<and>
           fractionPart s1 = (f, k, s2, post) \<and>
           unitMap (takeWhile isUnitByte s2) = Some unit"
  using assms unfolding parseTerm_def
  by (auto simp: Let_def split: list.splits if_splits option.splits prod.splits)

lemma ContainsAny_mono:
  "ContainsAny u cs \<Longrightarrow> set u \<subseteq> set s \<Longrightarrow> ContainsAny s cs"
  unfolding ContainsAny_def list_ex_iff by blast

lemma parseTerm_needs_unit:
  assumes "parseTerm fl s = Some (v, r)"
  shows "ContainsAny s ''hms''"
proof -
  from parseTerm_Some_unit [OF assms] obtain v0 s1 f k s2 post unit where
    li: "leadingInt s = Some (v0, s1)" and
    fp: "fractionPart s1 = (f, k, s2, post)" and
    um: "unitMap (takeWhile isUnitByte s2) = Some unit"
    by blast
  from li have "set s1 \<subseteq> set s"
    by (simp add: leadingInt_def leadingInt_loop_set)
  moreover from fp have "set s2 \<subseteq> set s1"
    by (rule fractionPart_set)
  moreover have "set (takeWhile isUnitByte s2) \<subseteq> set s2"
    by (rule subsetI) (rule set_takeWhileD [THEN conjunct1])
  ultimately have "set (takeWhile isUnitByte s2) \<subseteq> set s"
    by blast
  moreover from um have "ContainsAny (takeWhile isUnitByte s2) ''hms''"
    by (rule unitMap_shape)
  ultimately show ?thesis
    by (rule ContainsAny_mono [rotated])
qed

lemma ParseDuration_needs_unit:
  assumes "\<not> ContainsAny s ''hms''"
  shows "ParseDuration fl s = (if s = ''0'' \<or> s = ''+0'' \<or> s = ''-0'' then Some 0 else None)"
proof -
  define s1 where "s1 = (case s of c # r \<Rightarrow> if c = CHR ''-'' \<or> c = CHR ''+'' then r else s
                          | [] \<Rightarrow> s)"
  have sub: "set s1 \<subseteq> set s"
  proof (cases s)
    case Nil
    then show ?thesis by (simp add: s1_def)
  next
    case (Cons c r)
    then show ?thesis by (auto simp: s1_def)
  qed
  with assms have no: "\<not> ContainsAny s1 ''hms''"
    using ContainsAny_mono [of s1 "''hms''" s] by blast
  have zero: "s1 = ''0'' \<longleftrightarrow> s = ''0'' \<or> s = ''+0'' \<or> s = ''-0''"
  proof (cases s)
    case Nil
    then show ?thesis by (simp add: s1_def)
  next
    case (Cons c r)
    show ?thesis
    proof (cases "c = CHR ''-'' \<or> c = CHR ''+''")
      case True
      with Cons have "s1 = r" by (simp add: s1_def)
      with True Cons show ?thesis by auto
    next
      case False
      with Cons have "s1 = s" by (simp add: s1_def)
      with False Cons show ?thesis by auto
    qed
  qed
  have pd: "ParseDuration fl s =
      (if s1 = ''0'' then Some 0
       else if s1 = [] then None
       else case ParseDuration_loop fl 0 s1 of
              None \<Rightarrow> None
            | Some d \<Rightarrow>
                if (case s of c # _ \<Rightarrow> c = CHR ''-'' | [] \<Rightarrow> False) then Some (- int d)
                else if d > 2 ^ 63 - 1 then None
                else Some (int d))"
    unfolding ParseDuration_def Let_def s1_def ..
  show ?thesis
  proof (cases "s1 = ''0''")
    case True
    with pd zero show ?thesis by simp
  next
    case nz: False
    show ?thesis
    proof (cases "s1 = []")
      case True
      with pd nz zero show ?thesis by simp
    next
      case ne: False
      from no have "parseTerm fl s1 = None"
        using parseTerm_needs_unit [of fl s1] by (cases "parseTerm fl s1") auto
      with ne have "ParseDuration_loop fl 0 s1 = None"
        by (subst ParseDuration_loop.simps) simp
      with pd nz ne zero show ?thesis by simp
    qed
  qed
qed

lemma parseTerm_digits_unit:
  assumes "ds \<noteq> []" and "list_all isDigit ds" and "unitMap u = Some m"
  shows "parseTerm fl (ds @ u) =
           (if decimal ds \<le> 2 ^ 63 div m then Some (decimal ds * m, []) else None)"
proof -
  from assms obtain d ds' where ds: "ds = d # ds'" and d: "isDigit d"
    by (cases ds) auto
  note sh = unitMap_shape [OF assms(3)]
  from sh(1) obtain c r where u: "u = c # r" by (cases u) auto
  with sh have c: "\<not> isDigit c" "c \<noteq> CHR ''.''" by simp_all
  have li: "leadingInt (ds @ u) =
      (if decimal ds \<le> 2 ^ 63 then Some (decimal ds, u) else None)"
    using leadingInt_loop_digits [OF assms(2) c(1), of 0 r]
    by (simp add: leadingInt_def decimal_def u)
  have fp: "fractionPart u = (0, 0, u, False)"
    using c by (simp add: fractionPart_def u)
  have le: "2 ^ 63 div m \<le> (2::nat) ^ 63"
    by (rule div_le_dividend)
  show ?thesis
  proof (cases "decimal ds \<le> 2 ^ 63")
    case True
    with li have "leadingInt (d # ds' @ u) = Some (decimal ds, u)"
      by (simp add: ds)
    then have "leadingInt (ds @ u) = Some (decimal ds, u)"
      by (simp add: ds)
    moreover have "length (ds @ u) \<noteq> length u"
      using assms(1) by simp
    moreover obtain e es where "ds @ u = e # es" "isDigit e"
      using d by (simp add: ds)
    ultimately show ?thesis using True
      by (simp add: parseTerm_def Let_def fp sh(1) sh(2) sh(3) assms(3))
  next
    case False
    with li have "leadingInt (d # ds' @ u) = None"
      by (simp add: ds)
    moreover from False le have "\<not> decimal ds \<le> 2 ^ 63 div m" by linarith
    ultimately show ?thesis using d
      by (simp add: parseTerm_def ds)
  qed
qed

lemma ParseDuration_digits_unit:
  assumes "ds \<noteq> []" and "list_all isDigit ds" and "unitMap u = Some m"
  shows "ParseDuration fl (ds @ u) =
           (if decimal ds * m \<le> 2 ^ 63 - 1 then Some (int (decimal ds * m)) else None)"
proof -
  from assms obtain d ds' where ds: "ds = d # ds'" and d: "isDigit d"
    by (cases ds) auto
  from d have sign: "d \<noteq> CHR ''-''" "d \<noteq> CHR ''+''"
    by (simp_all add: isDigit_not_special)
  note sh = unitMap_shape [OF assms(3)]
  have fit: "decimal ds \<le> 2 ^ 63 div m \<longleftrightarrow> decimal ds * m \<le> 2 ^ 63"
    using sh(7) by (simp add: less_eq_div_iff_mult_less_eq)
  have pt: "parseTerm fl (ds @ u) =
      (if decimal ds * m \<le> 2 ^ 63 then Some (decimal ds * m, []) else None)"
    by (simp only: parseTerm_digits_unit [OF assms] fit)
  have ne: "ds @ u \<noteq> []" using assms(1) by simp
  have loop: "ParseDuration_loop fl 0 (ds @ u) =
      (if decimal ds * m \<le> 2 ^ 63 then Some (decimal ds * m) else None)"
  proof (cases "decimal ds * m \<le> 2 ^ 63")
    case True
    then have "decimal ds * m mod 2 ^ 64 = decimal ds * m" by simp
    moreover from True pt have "parseTerm fl (ds @ u) = Some (decimal ds * m, [])" by simp
    ultimately show ?thesis using True assms(1)
      by (subst ParseDuration_loop.simps)
         (simp add: Let_def ParseDuration_loop.simps [of fl _ "[]"])
  next
    case False
    with pt have "parseTerm fl (ds @ u) = None" by simp
    with False assms(1) show ?thesis
      by (subst ParseDuration_loop.simps) simp
  qed
  have nz: "ds @ u \<noteq> ''0''"
    using sh(1) by (cases u) (auto simp: ds)
  have s1: "(case ds @ u of c # r \<Rightarrow> if c = CHR ''-'' \<or> c = CHR ''+'' then r else ds @ u
             | [] \<Rightarrow> ds @ u) = ds @ u"
    using sign by (simp add: ds)
  have neg: "(case ds @ u of c # x \<Rightarrow> c = CHR ''-'' | [] \<Rightarrow> False) = False"
    using sign by (simp add: ds)
  have "ParseDuration fl (ds @ u) =
      (case ParseDuration_loop fl 0 (ds @ u) of
         None \<Rightarrow> None
       | Some d \<Rightarrow> if d > 2 ^ 63 - 1 then None else Some (int d))"
    unfolding ParseDuration_def Let_def s1 neg
    using nz assms(1) by (simp split: option.splits)
  also have "\<dots> = (if decimal ds * m \<le> 2 ^ 63 - 1 then Some (int (decimal ds * m)) else None)"
    unfolding loop by (simp split: if_splits)
  finally show ?thesis .
qed

subsection \<open>The task table\<close>

lemma set_insertRow: "set (insertRow le t ts) = insert t (set ts)"
  by (induction ts) auto

lemma set_orderRows: "set (orderRows le ts) = set ts"
  by (induction ts) (simp_all add: orderRows_def set_insertRow)

lemma find_owner_None:
  assumes "distinct (map Task.ID (rows db))" and "t \<in> set (rows db)"
    and "Task.UserID t \<noteq> userID"
  shows "find (\<lambda>u. live u \<and> Task.ID u = Task.ID t \<and> Task.UserID u = userID) (rows db) = None"
proof -
  have "\<And>u. u \<in> set (rows db) \<Longrightarrow> Task.ID u = Task.ID t \<Longrightarrow> u = t"
    using assms(1,2) by (meson distinct_map inj_onD)
  with assms(3) show ?thesis
    by (auto simp: find_None_iff)
qed

lemma GetTaskByID_other_owner:
  assumes "distinct (map Task.ID (rows db))" and "t \<in> set (rows db)"
    and "Task.UserID t \<noteq> userID"
  shows "GetTaskByID db (Task.ID t) userID
           = Inl (if available db then TaskNotFound else FailedToRetrieveTask)"
  using find_owner_None [OF assms]
  by (simp add: GetTaskByID_def First_id_user_def)

lemma filter_removeAll_other: "\<not> P t \<Longrightarrow> filter P (removeAll t xs) = filter P xs"
  by (induction xs) auto

lemma matching_without:
  "Task.UserID t \<noteq> userID \<Longrightarrow>
   matching (db\<lparr>rows := removeAll t (rows db)\<rparr>) userID status priority
     = matching db userID status priority"
  by (simp add: matching_def filter_removeAll_other)

lemma Find_subset:
  "Find orderBy db userID status priority clause limit offset = Inr ts \<Longrightarrow>
   set ts \<subseteq> set (matching db userID status priority)"
proof -
  assume "Find orderBy db userID status priority clause limit offset = Inr ts"
  then obtain le where
    "ts = take (nat limit) (drop (nat offset) (orderRows le (matching db userID status priority)))"
    by (auto simp: Find_def split: if_splits option.splits)
  then show ?thesis
    using set_take_subset set_drop_subset set_orderRows by (metis subset_trans)
qed

lemma GetTasks_Find:
  "GetTasks orderBy db options = Inr resp \<Longrightarrow>
   \<exists>clause limit offset.
     Find orderBy db (TaskFilterOptions.UserID options) (TaskFilterOptions.Status options)
       (TaskFilterOptions.Priority options) clause limit offset = Inr (Tasks resp)"
  unfolding GetTasks_def Let_def
  by (fastforce split: sum.splits)

section \<open>Properties of the session authority\<close>

text \<open>
  C1, as the code has it. The specification lets \<open>Validate\<close> succeed immediately
  after issuance for every user id; the code puts no bound on the sign of the configured
  lifetime, so with a negative lifetime the session is expired from the start. Amended:
  for every user id, when \<open>GenerateToken\<close> succeeds (the random source has filled the
  32 bytes), the configured lifetime \<open>ttl\<close> is a duration, 24 hours when
  \<open>JWT_EXPIRES_IN\<close> is empty or not set, and the table holds for the returned
  identifier the user id with \<open>expiresAt = now + ttl\<close>. \<open>ValidateToken\<close> on the
  identifier at any time up to \<open>expiresAt\<close>, so at any time strictly before it, returns
  that user id with no error and leaves the table as it is; at any later time it reports
  the session as expired. At the instant of issuance it succeeds exactly when the
  lifetime is not negative.
\<close>

theorem ValidateToken_after_GenerateToken:
  assumes "length b = 32"
    and "GenerateToken fl (Some b) env now userID st = (Inr sessionID, st')"
  shows "\<exists>ttl. ParseDuration fl (if Getenv env ''JWT_EXPIRES_IN'' = [] then ''24h''
                                 else Getenv env ''JWT_EXPIRES_IN'') = Some ttl \<and>
           (Getenv env ''JWT_EXPIRES_IN'' = [] \<longrightarrow> ttl = 24 * Hour) \<and>
           st' sessionID = Some \<lparr>sessionData.UserID = userID, ExpiresAt = now + ttl\<rparr> \<and>
           (\<forall>t. ValidateToken sessionID t st' =
                  (if t \<le> now + ttl then (Inr userID, st')
                   else (Inl SessionExpired, st'(sessionID := None)))) \<and>
           (ValidateToken sessionID now st' = (Inr userID, st') \<longleftrightarrow> 0 \<le> ttl)"
proof -
  from assms(1) have "b \<noteq> []" by auto
  then have ne: "EncodeToString b \<noteq> []" by (rule EncodeToString_nonempty)
  from assms(2) obtain ttl where
    p: "ParseDuration fl (if Getenv env ''JWT_EXPIRES_IN'' = [] then ''24h''
                          else Getenv env ''JWT_EXPIRES_IN'') = Some ttl"
    and sid: "sessionID = EncodeToString b"
    and st': "st' = st(sessionID \<mapsto> \<lparr>sessionData.UserID = userID, ExpiresAt = now + ttl\<rparr>)"
    by (auto simp: GenerateToken_def Let_def Add_def split: option.splits)
  from p have d: "Getenv env ''JWT_EXPIRES_IN'' = [] \<longrightarrow> ttl = 24 * Hour"
    by (auto simp: ParseDuration_24h)
  from ne sid st' have v: "\<forall>t. ValidateToken sessionID t st' =
                  (if t \<le> now + ttl then (Inr userID, st')
                   else (Inl SessionExpired, st'(sessionID := None)))"
    by (auto simp: ValidateToken_def After_def)
  then have i: "ValidateToken sessionID now st' = (Inr userID, st') \<longleftrightarrow> 0 \<le> ttl"
    by simp
  from p d st' v i show ?thesis by auto
qed

text \<open>
  With the lifetime \<open>-1h\<close> the session is issued, and validating it at the same
  instant reports it as expired.
\<close>

theorem negative_lifetime_counterexample:
  "fst (GenerateToken exactFraction (Some zeroBytes) [''JWT_EXPIRES_IN'' \<mapsto> ''-1h''] 5 7 Map.empty)
     = Inr (EncodeToString zeroBytes) \<and>
   fst (ValidateToken (EncodeToString zeroBytes) 5
          (snd (GenerateToken exactFraction (Some zeroBytes) [''JWT_EXPIRES_IN'' \<mapsto> ''-1h'']
                  5 7 Map.empty)))
     = Inl SessionExpired"
proof -
  have p: "ParseDuration exactFraction ''-1h'' = Some (- 3600000000000)"
    by (simp add: ParseDuration_eval)
  have "zeroBytes \<noteq> []" by (simp add: zeroBytes_def)
  then have ne: "EncodeToString zeroBytes \<noteq> []" by (rule EncodeToString_nonempty)
  from p ne show ?thesis
    by (simp add: GenerateToken_def Getenv_def Let_def Add_def ValidateToken_def After_def)
qed

theorem ValidateToken_after_GenerateToken_witness:
  "length zeroBytes = 32 \<and>
   GenerateToken exactFraction (Some zeroBytes) Map.empty 5 7 Map.empty =
     (Inr (EncodeToString zeroBytes),
      [EncodeToString zeroBytes \<mapsto> \<lparr>sessionData.UserID = 7, ExpiresAt = 5 + 24 * Hour\<rparr>]) \<and>
   ValidateToken (EncodeToString zeroBytes) 5
      [EncodeToString zeroBytes \<mapsto> \<lparr>sessionData.UserID = 7, ExpiresAt = 5 + 24 * Hour\<rparr>]
     = (Inr 7,
        [EncodeToString zeroBytes \<mapsto> \<lparr>sessionData.UserID = 7, ExpiresAt = 5 + 24 * Hour\<rparr>])"
proof -
  have l: "length zeroBytes = 32" by (simp add: zeroBytes_def)
  have g: "GenerateToken exactFraction (Some zeroBytes) Map.empty 5 7 Map.empty =
     (Inr (EncodeToString zeroBytes),
      [EncodeToString zeroBytes \<mapsto> \<lparr>sessionData.UserID = 7, ExpiresAt = 5 + 24 * Hour\<rparr>])"
    by (simp add: GenerateToken_def Getenv_def ParseDuration_24h Add_def Let_def)
  have e: "Getenv Map.empty ''JWT_EXPIRES_IN'' = []" by (simp add: Getenv_def)
  have pos: "(0::int) \<le> 24 * Hour" by (simp add: Hour_eval)
  from ValidateToken_after_GenerateToken [OF l g] e pos
  have "ValidateToken (EncodeToString zeroBytes) 5
      [EncodeToString zeroBytes \<mapsto> \<lparr>sessionData.UserID = 7, ExpiresAt = 5 + 24 * Hour\<rparr>]
     = (Inr 7,
        [EncodeToString zeroBytes \<mapsto> \<lparr>sessionData.UserID = 7, ExpiresAt = 5 + 24 * Hour\<rparr>])"
    by auto
  with l g show ?thesis by blast
qed

text \<open>
  C2, as the code has it. The specification takes a session for expired from
  \<open>now = expiresAt\<close> on; \<open>ValidateToken\<close> asks \<open>time.Now().After(session.ExpiresAt)\<close>,
  so at the instant of expiry the session is still valid. Amended: for every entry of
  the table under a non-empty identifier, if \<open>now\<close> is strictly later than its expiry,
  \<open>ValidateToken\<close> fails with the expired error and removes the entry, and a second call
  on the same identifier, at any time, fails with the not-found error; if \<open>now\<close> is not
  later than the expiry, the instant of expiry included, it returns the user id and
  leaves the table as it is. No call of \<open>ValidateToken\<close> changes an entry that stays in
  the table, so none extends a lifetime.
\<close>

theorem ValidateToken_expired_once:
  "(st sessionID = Some session \<and> sessionID \<noteq> [] \<and> ExpiresAt session < now \<longrightarrow>
      ValidateToken sessionID now st = (Inl SessionExpired, st(sessionID := None)) \<and>
      ValidateToken sessionID now' (snd (ValidateToken sessionID now st))
        = (Inl InvalidSession, st(sessionID := None))) \<and>
   (st sessionID = Some session \<and> sessionID \<noteq> [] \<and> now \<le> ExpiresAt session \<longrightarrow>
      ValidateToken sessionID now st = (Inr (sessionData.UserID session), st)) \<and>
   (snd (ValidateToken sid t st) k = Some v \<longrightarrow> st k = Some v)"
  by (auto simp: ValidateToken_def After_def split: option.splits if_splits)

text \<open>At \<open>now = expiresAt\<close> the session is returned, not expired.\<close>

theorem ValidateToken_boundary_counterexample:
  "ExpiresAt \<lparr>sessionData.UserID = 1, ExpiresAt = 10\<rparr> \<le> 10 \<and>
   ValidateToken ''a'' 10 [''a'' \<mapsto> \<lparr>sessionData.UserID = 1, ExpiresAt = 10\<rparr>]
     = (Inr 1, [''a'' \<mapsto> \<lparr>sessionData.UserID = 1, ExpiresAt = 10\<rparr>])"
  by (simp add: ValidateToken_def After_def)

theorem ValidateToken_expired_once_witness:
  "[''a'' \<mapsto> \<lparr>sessionData.UserID = 1, ExpiresAt = 10\<rparr>] ''a''
     = Some \<lparr>sessionData.UserID = 1, ExpiresAt = 10\<rparr> \<and>
   ''a'' \<noteq> [] \<and> ExpiresAt \<lparr>sessionData.UserID = 1::uint, ExpiresAt = 10\<rparr> < 11 \<and>
   ValidateToken ''a'' 11 [''a'' \<mapsto> \<lparr>sessionData.UserID = 1, ExpiresAt = 10\<rparr>]
     = (Inl SessionExpired, Map.empty) \<and>
   ValidateToken ''a'' 12
      (snd (ValidateToken ''a'' 11 [''a'' \<mapsto> \<lparr>sessionData.UserID = 1, ExpiresAt = 10\<rparr>]))
     = (Inl InvalidSession, Map.empty) \<and>
   (9::int) \<le> ExpiresAt \<lparr>sessionData.UserID = 1::uint, ExpiresAt = 10\<rparr> \<and>
   ValidateToken ''a'' 9 [''a'' \<mapsto> \<lparr>sessionData.UserID = 1, ExpiresAt = 10\<rparr>]
     = (Inr 1, [''a'' \<mapsto> \<lparr>sessionData.UserID = 1, ExpiresAt = 10\<rparr>]) \<and>
   snd (ValidateToken ''a'' 9 [''a'' \<mapsto> \<lparr>sessionData.UserID = 1, ExpiresAt = 10\<rparr>]) ''a''
     = Some \<lparr>sessionData.UserID = 1, ExpiresAt = 10\<rparr>"
proof -
  let ?s = "\<lparr>sessionData.UserID = 1::uint, ExpiresAt = 10\<rparr>"
  let ?st = "[''a'' \<mapsto> ?s]"
  have h: "?st ''a'' = Some ?s" "''a'' \<noteq> []" "ExpiresAt ?s < 11" "(9::int) \<le> ExpiresAt ?s"
    by simp_all
  note late = ValidateToken_expired_once [of ?st "''a''" ?s 11 12 "''a''" 9 "''a''" ?s]
  note early = ValidateToken_expired_once [of ?st "''a''" ?s 9 12 "''a''" 9 "''a''" ?s]
  from late h have e1: "ValidateToken ''a'' 11 ?st = (Inl SessionExpired, ?st(''a'' := None))"
    and e2: "ValidateToken ''a'' 12 (snd (ValidateToken ''a'' 11 ?st))
        = (Inl InvalidSession, ?st(''a'' := None))"
    by blast+
  from early h have e3: "ValidateToken ''a'' 9 ?st = (Inr (sessionData.UserID ?s), ?st)"
    by blast
  from h e1 e2 e3 show ?thesis by simp
qed

text \<open>
  C3, as the code has it. The specification removes the entries with \<open>expiresAt \<le> now\<close>;
  \<open>CleanupSessions\<close> asks \<open>now.After(session.ExpiresAt)\<close>, so an entry that expires at
  \<open>now\<close> stays. Amended: when the loop visits the keys of the table, \<open>CleanupSessions\<close>
  removes exactly the entries with \<open>expiresAt < now\<close> and leaves every other entry as it
  is; an entry survives any number of runs of \<open>CleanupSessions\<close> that happen at times up
  to and including its expiry.
\<close>

theorem CleanupSessions_removes_strictly_expired:
  "(set ids = dom st \<longrightarrow>
      CleanupSessions now ids st =
        (\<lambda>k. case st k of
                None \<Rightarrow> None
              | Some s \<Rightarrow> if ExpiresAt s < now then None else Some s)) \<and>
   (st k = Some s \<and> (\<forall>(t, ks) \<in> set ticks. t \<le> ExpiresAt s) \<longrightarrow>
      scheduleSessionCleanup ticks st k = Some s)"
proof (intro conjI impI)
  assume ids: "set ids = dom st"
  show "CleanupSessions now ids st =
        (\<lambda>k. case st k of None \<Rightarrow> None | Some s \<Rightarrow> if ExpiresAt s < now then None else Some s)"
  proof
    fix k
    from ids show "CleanupSessions now ids st k =
        (case st k of None \<Rightarrow> None | Some s \<Rightarrow> if ExpiresAt s < now then None else Some s)"
      by (auto simp: CleanupSessions_apply After_def split: option.splits)
  qed
next
  assume "st k = Some s \<and> (\<forall>(t, ks) \<in> set ticks. t \<le> ExpiresAt s)"
  then show "scheduleSessionCleanup ticks st k = Some s"
    by (simp add: scheduleSessionCleanup_keeps)
qed

text \<open>An entry with \<open>expiresAt = now\<close> is visited and kept.\<close>

theorem CleanupSessions_boundary_counterexample:
  "ExpiresAt \<lparr>sessionData.UserID = 1, ExpiresAt = 10\<rparr> \<le> 10 \<and>
   CleanupSessions 10 [''a''] [''a'' \<mapsto> \<lparr>sessionData.UserID = 1, ExpiresAt = 10\<rparr>] ''a''
     = Some \<lparr>sessionData.UserID = 1, ExpiresAt = 10\<rparr>"
  by (simp add: After_def)

theorem CleanupSessions_removes_strictly_expired_witness:
  "set [''a'', ''b''] =
     dom [''a'' \<mapsto> \<lparr>sessionData.UserID = 1, ExpiresAt = 10\<rparr>,
          ''b'' \<mapsto> \<lparr>sessionData.UserID = 2, ExpiresAt = 20\<rparr>] \<and>
   CleanupSessions 15 [''a'', ''b'']
     [''a'' \<mapsto> \<lparr>sessionData.UserID = 1, ExpiresAt = 10\<rparr>,
      ''b'' \<mapsto> \<lparr>sessionData.UserID = 2, ExpiresAt = 20\<rparr>]
     = [''b'' \<mapsto> \<lparr>sessionData.UserID = 2, ExpiresAt = 20\<rparr>] \<and>
   scheduleSessionCleanup [(15, [''a'', ''b'']), (20, [''b''])]
     [''a'' \<mapsto> \<lparr>sessionData.UserID = 1, ExpiresAt = 10\<rparr>,
      ''b'' \<mapsto> \<lparr>sessionData.UserID = 2, ExpiresAt = 20\<rparr>] ''b''
     = Some \<lparr>sessionData.UserID = 2, ExpiresAt = 20\<rparr>"
proof -
  let ?a = "\<lparr>sessionData.UserID = 1::uint, ExpiresAt = 10\<rparr>"
  let ?b = "\<lparr>sessionData.UserID = 2::uint, ExpiresAt = 20\<rparr>"
  let ?st = "[''a'' \<mapsto> ?a, ''b'' \<mapsto> ?b]"
  let ?ticks = "[(15::int, [''a'', ''b'']), (20, [''b''])]"
  have d: "set [''a'', ''b''] = dom ?st" by auto
  have h: "?st ''b'' = Some ?b \<and> (\<forall>(t, ks) \<in> set ?ticks. t \<le> ExpiresAt ?b)"
    by simp
  note inst = CleanupSessions_removes_strictly_expired
    [of "[''a'', ''b'']" ?st 15 "''b''" ?b ?ticks]
  from inst d have "CleanupSessions 15 [''a'', ''b''] ?st =
      (\<lambda>k. case ?st k of None \<Rightarrow> None | Some s \<Rightarrow> if ExpiresAt s < 15 then None else Some s)"
    by blast
  also have "\<dots> = [''b'' \<mapsto> ?b]"
    by (rule ext) simp
  finally have c1: "CleanupSessions 15 [''a'', ''b''] ?st = [''b'' \<mapsto> ?b]" .
  from inst h have c2: "scheduleSessionCleanup ?ticks ?st ''b'' = Some ?b"
    by blast
  from d c1 c2 show ?thesis by blast
qed

text \<open>
  C4, as the code has it. The specification lets \<open>GenerateToken\<close> fail only when the random
  source fails; the code also returns an error when the configured lifetime does not
  parse. Amended: \<open>GenerateToken\<close> fails exactly when the random source fails or the
  value of \<open>JWT_EXPIRES_IN\<close> (\<open>24h\<close> when the variable is empty or not set) is not a
  duration; when both succeed it stores, under the identifier, the user id with
  \<open>expiresAt = now + lifetime\<close> and returns the identifier. With the variable empty or
  not set, it fails only when the random source fails, and the lifetime is 24 hours.
\<close>

theorem GenerateToken_outcome:
  "((\<exists>err. fst (GenerateToken fl rnd env now userID st) = Inl err) \<longleftrightarrow>
      rnd = None \<or>
      ParseDuration fl (if Getenv env ''JWT_EXPIRES_IN'' = [] then ''24h''
                        else Getenv env ''JWT_EXPIRES_IN'') = None) \<and>
   (rnd = Some b \<and>
    ParseDuration fl (if Getenv env ''JWT_EXPIRES_IN'' = [] then ''24h''
                      else Getenv env ''JWT_EXPIRES_IN'') = Some expiresIn \<longrightarrow>
      GenerateToken fl rnd env now userID st =
        (Inr (EncodeToString b),
         st(EncodeToString b \<mapsto> \<lparr>sessionData.UserID = userID, ExpiresAt = now + expiresIn\<rparr>))) \<and>
   (rnd = Some b \<and> Getenv env ''JWT_EXPIRES_IN'' = [] \<longrightarrow>
      GenerateToken fl rnd env now userID st =
        (Inr (EncodeToString b),
         st(EncodeToString b \<mapsto> \<lparr>sessionData.UserID = userID, ExpiresAt = now + 24 * Hour\<rparr>)))"
  by (auto simp: GenerateToken_def Let_def Add_def ParseDuration_24h split: option.splits)

text \<open>The random source succeeds, the setting is \<open>1d\<close>, and the call fails.\<close>

theorem GenerateToken_bad_setting_counterexample:
  "fst (GenerateToken exactFraction (Some zeroBytes) [''JWT_EXPIRES_IN'' \<mapsto> ''1d''] 5 7 Map.empty)
     = Inl InvalidExpiresIn"
  by (simp add: GenerateToken_def Getenv_def ParseDuration_eval)

theorem GenerateToken_outcome_witness:
  "Getenv Map.empty ''JWT_EXPIRES_IN'' = [] \<and>
   GenerateToken exactFraction (Some zeroBytes) Map.empty 5 7 Map.empty =
     (Inr (EncodeToString zeroBytes),
      [EncodeToString zeroBytes \<mapsto> \<lparr>sessionData.UserID = 7, ExpiresAt = 5 + 24 * Hour\<rparr>])"
  using GenerateToken_outcome [of exactFraction "Some zeroBytes" Map.empty 5 7 Map.empty zeroBytes]
  by (simp add: Getenv_def)

section \<open>Properties of request authentication and of the configuration\<close>

text \<open>
  C5, as the code has it. The repository has two variants of \<open>AuthMiddleware\<close>. The
  session variant does what the specification says, with one precision: it reads the header with
  \<open>c.GetHeader\<close>, which gives the empty string for a header that is absent and for one
  that is present with an empty value, and it answers 401 "Authorization header is
  required" exactly when that string is empty. Otherwise it hands the value, trimmed of
  surrounding white space and with no prefix asked for, to \<open>ValidateToken\<close>; a failure
  there gives 401 with "Invalid session: " and the text of the error, and a success
  leads to the lookup of the user. The token variant (auth.go) gives the same answer for
  an empty header value, but by design asks for the prefix "Bearer ": a value without it
  is answered with 401 "Authorization header must be in format: Bearer {token}" and never
  reaches the validation; a token that fails validation is answered with 401.
\<close>

theorem AuthMiddleware_rejects:
  "(fst (AuthMiddleware findUser header now st)
      = Abort StatusUnauthorized ''Authorization header is required''
    \<longleftrightarrow> GetHeader header ''Authorization'' = []) \<and>
   (header ''Authorization'' = None \<longrightarrow> GetHeader header ''Authorization'' = []) \<and>
   (GetHeader header ''Authorization'' \<noteq> [] \<and>
    ValidateToken (TrimSpace (GetHeader header ''Authorization'')) now st = (Inl err, st') \<longrightarrow>
      AuthMiddleware findUser header now st
        = (Abort StatusUnauthorized (''Invalid session: '' @ Error err), st')) \<and>
   (GetHeader header ''Authorization'' \<noteq> [] \<and>
    ValidateToken (TrimSpace (GetHeader header ''Authorization'')) now st = (Inr userID, st') \<longrightarrow>
      AuthMiddleware findUser header now st
        = (case findUser userID of
             None \<Rightarrow> (Abort StatusUnauthorized ''User not found or invalid session'', st')
           | Some user \<Rightarrow> (Next userID user, st'))) \<and>
   (AuthMiddleware_token validate findUser header
      = Abort StatusUnauthorized ''Authorization header is required''
    \<longleftrightarrow> GetHeader header ''Authorization'' = []) \<and>
   (GetHeader header ''Authorization'' \<noteq> [] \<and>
    \<not> HasPrefix (GetHeader header ''Authorization'') ''Bearer '' \<longrightarrow>
      AuthMiddleware_token validate findUser header
        = Abort StatusUnauthorized ''Authorization header must be in format: Bearer {token}'') \<and>
   (GetHeader header ''Authorization'' = ''Bearer '' @ tokenString \<and> tokenString \<noteq> [] \<and>
    validate tokenString = Inl terr \<longrightarrow>
      (\<exists>msg. AuthMiddleware_token validate findUser header = Abort StatusUnauthorized msg))"
proof -
  have a: "fst (AuthMiddleware findUser header now st)
      = Abort StatusUnauthorized ''Authorization header is required''
    \<longleftrightarrow> GetHeader header ''Authorization'' = []"
    by (auto simp: AuthMiddleware_def Let_def split: prod.splits sum.splits option.splits)
  have b: "header ''Authorization'' = None \<longrightarrow> GetHeader header ''Authorization'' = []"
    by (simp add: GetHeader_def)
  have c: "GetHeader header ''Authorization'' \<noteq> [] \<and>
    ValidateToken (TrimSpace (GetHeader header ''Authorization'')) now st = (Inl err, st') \<longrightarrow>
      AuthMiddleware findUser header now st
        = (Abort StatusUnauthorized (''Invalid session: '' @ Error err), st')"
    by (simp add: AuthMiddleware_def Let_def)
  have d: "GetHeader header ''Authorization'' \<noteq> [] \<and>
    ValidateToken (TrimSpace (GetHeader header ''Authorization'')) now st = (Inr userID, st') \<longrightarrow>
      AuthMiddleware findUser header now st
        = (case findUser userID of
             None \<Rightarrow> (Abort StatusUnauthorized ''User not found or invalid session'', st')
           | Some user \<Rightarrow> (Next userID user, st'))"
    by (simp add: AuthMiddleware_def Let_def)
  have e: "AuthMiddleware_token validate findUser header
      = Abort StatusUnauthorized ''Authorization header is required''
    \<longleftrightarrow> GetHeader header ''Authorization'' = []"
    by (auto simp: AuthMiddleware_token_def Let_def split: sum.splits option.splits if_splits)
  have f: "GetHeader header ''Authorization'' \<noteq> [] \<and>
    \<not> HasPrefix (GetHeader header ''Authorization'') ''Bearer '' \<longrightarrow>
      AuthMiddleware_token validate findUser header
        = Abort StatusUnauthorized ''Authorization header must be in format: Bearer {token}''"
    by (simp add: AuthMiddleware_token_def Let_def)
  have g: "GetHeader header ''Authorization'' = ''Bearer '' @ tokenString \<and> tokenString \<noteq> [] \<and>
    validate tokenString = Inl terr \<longrightarrow>
      (\<exists>msg. AuthMiddleware_token validate findUser header = Abort StatusUnauthorized msg)"
    by (simp add: AuthMiddleware_token_def Let_def)
  from a b c d e f g show ?thesis by blast
qed

text \<open>
  The token variant refuses the header value \<open>abc\<close> for its format, although the
  validation at hand would accept every token; the session variant answers "required"
  to a header that is present with an empty value.
\<close>

theorem AuthMiddleware_rejects_counterexample:
  "[''Authorization'' \<mapsto> [''abc'']] ''Authorization'' \<noteq> None \<and>
   AuthMiddleware_token (\<lambda>tokenString. Inr 7) (\<lambda>userID. Some ())
       [''Authorization'' \<mapsto> [''abc'']]
     = Abort StatusUnauthorized ''Authorization header must be in format: Bearer {token}'' \<and>
   [''Authorization'' \<mapsto> [[]]] ''Authorization'' \<noteq> None \<and>
   fst (AuthMiddleware (\<lambda>userID. Some ()) [''Authorization'' \<mapsto> [[]]] 5 Map.empty)
     = Abort StatusUnauthorized ''Authorization header is required''"
  by (simp add: AuthMiddleware_token_def AuthMiddleware_def GetHeader_def)

theorem AuthMiddleware_rejects_witness:
  "GetHeader [''Authorization'' \<mapsto> ['' abc '']] ''Authorization'' \<noteq> [] \<and>
   ValidateToken (TrimSpace (GetHeader [''Authorization'' \<mapsto> ['' abc '']] ''Authorization'')) 5
      [''abc'' \<mapsto> \<lparr>sessionData.UserID = 7, ExpiresAt = 10\<rparr>]
     = (Inr 7, [''abc'' \<mapsto> \<lparr>sessionData.UserID = 7, ExpiresAt = 10\<rparr>]) \<and>
   AuthMiddleware (\<lambda>userID. Some ()) [''Authorization'' \<mapsto> ['' abc '']] 5
      [''abc'' \<mapsto> \<lparr>sessionData.UserID = 7, ExpiresAt = 10\<rparr>]
     = (Next 7 (), [''abc'' \<mapsto> \<lparr>sessionData.UserID = 7, ExpiresAt = 10\<rparr>]) \<and>
   ValidateToken (TrimSpace (GetHeader [''Authorization'' \<mapsto> [''wrong'']] ''Authorization'')) 5
      [''abc'' \<mapsto> \<lparr>sessionData.UserID = 7, ExpiresAt = 10\<rparr>]
     = (Inl InvalidSession, [''abc'' \<mapsto> \<lparr>sessionData.UserID = 7, ExpiresAt = 10\<rparr>]) \<and>
   AuthMiddleware (\<lambda>userID. Some ()) [''Authorization'' \<mapsto> [''wrong'']] 5
      [''abc'' \<mapsto> \<lparr>sessionData.UserID = 7, ExpiresAt = 10\<rparr>]
     = (Abort StatusUnauthorized ''Invalid session: invalid session'',
        [''abc'' \<mapsto> \<lparr>sessionData.UserID = 7, ExpiresAt = 10\<rparr>])"
proof -
  let ?st = "[''abc'' \<mapsto> \<lparr>sessionData.UserID = 7::uint, ExpiresAt = 10\<rparr>]"
  let ?h1 = "[''Authorization'' \<mapsto> ['' abc '']]"
  let ?h2 = "[''Authorization'' \<mapsto> [''wrong'']]"
  have h1: "GetHeader ?h1 ''Authorization'' \<noteq> []"
    and h2: "GetHeader ?h2 ''Authorization'' \<noteq> []"
    by (simp_all add: GetHeader_def)
  have v1: "ValidateToken (TrimSpace (GetHeader ?h1 ''Authorization'')) 5 ?st = (Inr 7, ?st)"
    by (simp add: GetHeader_def TrimSpace_eval ValidateToken_def After_def)
  have v2: "ValidateToken (TrimSpace (GetHeader ?h2 ''Authorization'')) 5 ?st
      = (Inl InvalidSession, ?st)"
    by (simp add: GetHeader_def TrimSpace_eval ValidateToken_def After_def)
  from AuthMiddleware_rejects [where findUser = "\<lambda>userID. Some ()" and header = ?h1 and now = 5
      and st = ?st and userID = 7 and st' = ?st] h1 v1
  have r1: "AuthMiddleware (\<lambda>userID. Some ()) ?h1 5 ?st = (Next 7 (), ?st)"
    by simp
  from AuthMiddleware_rejects [where findUser = "\<lambda>userID. Some ()" and header = ?h2 and now = 5
      and st = ?st and err = InvalidSession and st' = ?st] h2 v2
  have r2: "AuthMiddleware (\<lambda>userID. Some ()) ?h2 5 ?st
      = (Abort StatusUnauthorized ''Invalid session: invalid session'', ?st)"
    by simp
  from h1 v1 r1 v2 r2 show ?thesis by blast
qed

text \<open>
  C6, as the code has it. The specification reads every value without a unit as hours.
  Two functions read \<open>JWT_EXPIRES_IN\<close>, and both take 24 hours when it is empty or not
  set. \<open>getDurationEnvOrDefault\<close>, which fills \<open>JWT.ExpiresIn\<close> of the
  configuration, appends \<open>h\<close> to a value that has none of the letters \<open>h\<close>, \<open>m\<close>,
  \<open>s\<close>, parses the result as a duration and takes the default of 24 hours when it does
  not parse: a number with a unit gives that duration (\<open>30m\<close> gives 30 minutes), and
  decimal digits alone, denoting \<open>n\<close>, give \<open>n\<close> hours when \<open>n \<le> 2562047\<close>, the most
  hours a duration holds, and 24 hours otherwise. \<open>GenerateToken\<close> of the session
  variant parses the value as it stands: a value that is a duration \<open>d\<close> gives
  \<open>expiresAt = now + d\<close>, and any other value makes the call fail; a value with none of
  the letters \<open>h\<close>, \<open>m\<close>, \<open>s\<close> is no duration, unless it is \<open>0\<close>, \<open>+0\<close> or
  \<open>-0\<close>, so there a unit is required.
\<close>

theorem JWT_ExpiresIn_setting:
  "(Getenv env ''JWT_EXPIRES_IN'' = [] \<longrightarrow>
      JWT_ExpiresIn fl env = 24 * Hour \<and>
      GenerateToken fl (Some b) env now userID st =
        (Inr (EncodeToString b),
         st(EncodeToString b \<mapsto> \<lparr>sessionData.UserID = userID, ExpiresAt = now + 24 * Hour\<rparr>))) \<and>
   (Getenv env ''JWT_EXPIRES_IN'' \<noteq> [] \<longrightarrow>
      JWT_ExpiresIn fl env =
        (case ParseDuration fl
                (if ContainsAny (Getenv env ''JWT_EXPIRES_IN'') ''hms''
                 then Getenv env ''JWT_EXPIRES_IN'' else Getenv env ''JWT_EXPIRES_IN'' @ ''h'') of
           None \<Rightarrow> 24 * Hour
         | Some d \<Rightarrow> d) \<and>
      GenerateToken fl (Some b) env now userID st =
        (case ParseDuration fl (Getenv env ''JWT_EXPIRES_IN'') of
           None \<Rightarrow> (Inl InvalidExpiresIn, st)
         | Some d \<Rightarrow>
             (Inr (EncodeToString b),
              st(EncodeToString b \<mapsto> \<lparr>sessionData.UserID = userID, ExpiresAt = now + d\<rparr>)))) \<and>
   (Getenv env ''JWT_EXPIRES_IN'' = ds @ u \<and> ds \<noteq> [] \<and> list_all isDigit ds \<and>
    unitMap u = Some m \<longrightarrow>
      JWT_ExpiresIn fl env =
        (if decimal ds * m \<le> 2 ^ 63 - 1 then int (decimal ds * m) else 24 * Hour) \<and>
      GenerateToken fl (Some b) env now userID st =
        (if decimal ds * m \<le> 2 ^ 63 - 1
         then (Inr (EncodeToString b),
               st(EncodeToString b \<mapsto>
                    \<lparr>sessionData.UserID = userID, ExpiresAt = now + int (decimal ds * m)\<rparr>))
         else (Inl InvalidExpiresIn, st))) \<and>
   (Getenv env ''JWT_EXPIRES_IN'' = ds \<and> ds \<noteq> [] \<and> list_all isDigit ds \<longrightarrow>
      JWT_ExpiresIn fl env =
        (if decimal ds \<le> 2562047 then int (decimal ds) * Hour else 24 * Hour)) \<and>
   (Getenv env ''JWT_EXPIRES_IN'' \<noteq> [] \<and> \<not> ContainsAny (Getenv env ''JWT_EXPIRES_IN'') ''hms'' \<longrightarrow>
      GenerateToken fl (Some b) env now userID st =
        (if Getenv env ''JWT_EXPIRES_IN'' = ''0'' \<or> Getenv env ''JWT_EXPIRES_IN'' = ''+0''
            \<or> Getenv env ''JWT_EXPIRES_IN'' = ''-0''
         then (Inr (EncodeToString b),
               st(EncodeToString b \<mapsto> \<lparr>sessionData.UserID = userID, ExpiresAt = now\<rparr>))
         else (Inl InvalidExpiresIn, st)))"
proof -
  let ?v = "Getenv env ''JWT_EXPIRES_IN''"
  have a: "?v = [] \<longrightarrow>
      JWT_ExpiresIn fl env = 24 * Hour \<and>
      GenerateToken fl (Some b) env now userID st =
        (Inr (EncodeToString b),
         st(EncodeToString b \<mapsto> \<lparr>sessionData.UserID = userID, ExpiresAt = now + 24 * Hour\<rparr>))"
    by (simp add: JWT_ExpiresIn_def getDurationEnvOrDefault_def GenerateToken_def Let_def
          ParseDuration_24h Add_def)
  have g: "?v \<noteq> [] \<Longrightarrow> GenerateToken fl (Some b) env now userID st =
        (case ParseDuration fl ?v of
           None \<Rightarrow> (Inl InvalidExpiresIn, st)
         | Some d \<Rightarrow>
             (Inr (EncodeToString b),
              st(EncodeToString b \<mapsto> \<lparr>sessionData.UserID = userID, ExpiresAt = now + d\<rparr>)))"
    by (simp add: GenerateToken_def Let_def Add_def split: option.splits)
  have j: "?v \<noteq> [] \<Longrightarrow> JWT_ExpiresIn fl env =
        (case ParseDuration fl (if ContainsAny ?v ''hms'' then ?v else ?v @ ''h'') of
           None \<Rightarrow> 24 * Hour
         | Some d \<Rightarrow> d)"
    by (simp add: JWT_ExpiresIn_def getDurationEnvOrDefault_def Let_def)
  have gj: "?v \<noteq> [] \<longrightarrow>
      JWT_ExpiresIn fl env =
        (case ParseDuration fl (if ContainsAny ?v ''hms'' then ?v else ?v @ ''h'') of
           None \<Rightarrow> 24 * Hour
         | Some d \<Rightarrow> d) \<and>
      GenerateToken fl (Some b) env now userID st =
        (case ParseDuration fl ?v of
           None \<Rightarrow> (Inl InvalidExpiresIn, st)
         | Some d \<Rightarrow>
             (Inr (EncodeToString b),
              st(EncodeToString b \<mapsto> \<lparr>sessionData.UserID = userID, ExpiresAt = now + d\<rparr>)))"
    using g j by (intro impI conjI)
  have c: "?v = ds @ u \<and> ds \<noteq> [] \<and> list_all isDigit ds \<and> unitMap u = Some m \<longrightarrow>
      JWT_ExpiresIn fl env =
        (if decimal ds * m \<le> 2 ^ 63 - 1 then int (decimal ds * m) else 24 * Hour) \<and>
      GenerateToken fl (Some b) env now userID st =
        (if decimal ds * m \<le> 2 ^ 63 - 1
         then (Inr (EncodeToString b),
               st(EncodeToString b \<mapsto>
                    \<lparr>sessionData.UserID = userID, ExpiresAt = now + int (decimal ds * m)\<rparr>))
         else (Inl InvalidExpiresIn, st))"
  proof (intro impI, elim conjE)
    assume v: "?v = ds @ u" and ds: "ds \<noteq> []" "list_all isDigit ds" and um: "unitMap u = Some m"
    from um have "ContainsAny u ''hms''" by (rule unitMap_shape)
    then have ca: "ContainsAny (ds @ u) ''hms''"
      by (rule ContainsAny_mono) simp
    from ds(1) v have ne: "?v \<noteq> []" by simp
    note pd = ParseDuration_digits_unit [OF ds um, of fl]
    from j [OF ne] have j': "JWT_ExpiresIn fl env =
        (if decimal ds * m \<le> 2 ^ 63 - 1 then int (decimal ds * m) else 24 * Hour)"
      unfolding v by (simp only: ca pd if_True) (simp split: if_splits)
    from g [OF ne] have g': "GenerateToken fl (Some b) env now userID st =
        (if decimal ds * m \<le> 2 ^ 63 - 1
         then (Inr (EncodeToString b),
               st(EncodeToString b \<mapsto>
                    \<lparr>sessionData.UserID = userID, ExpiresAt = now + int (decimal ds * m)\<rparr>))
         else (Inl InvalidExpiresIn, st))"
      unfolding v by (simp only: pd) (simp split: if_splits)
    from j' g' show "JWT_ExpiresIn fl env =
        (if decimal ds * m \<le> 2 ^ 63 - 1 then int (decimal ds * m) else 24 * Hour) \<and>
      GenerateToken fl (Some b) env now userID st =
        (if decimal ds * m \<le> 2 ^ 63 - 1
         then (Inr (EncodeToString b),
               st(EncodeToString b \<mapsto>
                    \<lparr>sessionData.UserID = userID, ExpiresAt = now + int (decimal ds * m)\<rparr>))
         else (Inl InvalidExpiresIn, st))"
      by (rule conjI)
  qed
  have d: "?v = ds \<and> ds \<noteq> [] \<and> list_all isDigit ds \<longrightarrow>
      JWT_ExpiresIn fl env =
        (if decimal ds \<le> 2562047 then int (decimal ds) * Hour else 24 * Hour)"
    by (auto simp: JWT_ExpiresIn_def getDurationEnvOrDefault_def Let_def digits_no_unit
          ParseDuration_digits_h)
  have e: "?v \<noteq> [] \<and> \<not> ContainsAny ?v ''hms'' \<longrightarrow>
      GenerateToken fl (Some b) env now userID st =
        (if ?v = ''0'' \<or> ?v = ''+0'' \<or> ?v = ''-0''
         then (Inr (EncodeToString b),
               st(EncodeToString b \<mapsto> \<lparr>sessionData.UserID = userID, ExpiresAt = now\<rparr>))
         else (Inl InvalidExpiresIn, st))"
  proof (intro impI, elim conjE)
    assume ne: "?v \<noteq> []" and no: "\<not> ContainsAny ?v ''hms''"
    from g [OF ne] show "GenerateToken fl (Some b) env now userID st =
        (if ?v = ''0'' \<or> ?v = ''+0'' \<or> ?v = ''-0''
         then (Inr (EncodeToString b),
               st(EncodeToString b \<mapsto> \<lparr>sessionData.UserID = userID, ExpiresAt = now\<rparr>))
         else (Inl InvalidExpiresIn, st))"
      by (simp only: ParseDuration_needs_unit [OF no, of fl]) (simp split: if_splits)
  qed
  from a gj c d e show ?thesis by (intro conjI) assumption+
qed

text \<open>
  The value \<open>3000000\<close> has no unit and gives 24 hours in the configuration; the value
  \<open>24\<close> has no unit and makes \<open>GenerateToken\<close> of the session variant fail, since that
  function parses the variable itself and appends no unit.
\<close>

theorem unitless_setting_counterexample:
  "list_all isDigit ''3000000'' \<and>
   JWT_ExpiresIn exactFraction [''JWT_EXPIRES_IN'' \<mapsto> ''3000000''] = 24 * Hour \<and>
   list_all isDigit ''24'' \<and>
   GenerateToken exactFraction (Some zeroBytes) [''JWT_EXPIRES_IN'' \<mapsto> ''24''] 5 7 Map.empty
     = (Inl InvalidExpiresIn, Map.empty)"
  by (simp add: JWT_ExpiresIn_def getDurationEnvOrDefault_def Getenv_def ContainsAny_def
        GenerateToken_def ParseDuration_eval)

theorem JWT_ExpiresIn_setting_witness:
  "Getenv Map.empty ''JWT_EXPIRES_IN'' = [] \<and>
   JWT_ExpiresIn exactFraction Map.empty = 24 * Hour \<and>
   Getenv [''JWT_EXPIRES_IN'' \<mapsto> ''30m''] ''JWT_EXPIRES_IN'' = ''30'' @ ''m'' \<and>
   ''30'' \<noteq> [] \<and> list_all isDigit ''30'' \<and> unitMap ''m'' = Some 60000000000 \<and>
   JWT_ExpiresIn exactFraction [''JWT_EXPIRES_IN'' \<mapsto> ''30m''] = 30 * Minute \<and>
   GenerateToken exactFraction (Some zeroBytes) [''JWT_EXPIRES_IN'' \<mapsto> ''30m''] 5 7 Map.empty
     = (Inr (EncodeToString zeroBytes),
        [EncodeToString zeroBytes \<mapsto> \<lparr>sessionData.UserID = 7, ExpiresAt = 5 + 30 * Minute\<rparr>]) \<and>
   Getenv [''JWT_EXPIRES_IN'' \<mapsto> ''48''] ''JWT_EXPIRES_IN'' = ''48'' \<and>
   list_all isDigit ''48'' \<and> \<not> ContainsAny ''48'' ''hms'' \<and>
   JWT_ExpiresIn exactFraction [''JWT_EXPIRES_IN'' \<mapsto> ''48''] = 48 * Hour \<and>
   GenerateToken exactFraction (Some zeroBytes) [''JWT_EXPIRES_IN'' \<mapsto> ''48''] 5 7 Map.empty
     = (Inl InvalidExpiresIn, Map.empty)"
proof -
  let ?e30 = "[''JWT_EXPIRES_IN'' \<mapsto> ''30m'']"
  let ?e48 = "[''JWT_EXPIRES_IN'' \<mapsto> ''48'']"
  have h0: "Getenv Map.empty ''JWT_EXPIRES_IN'' = []"
    by (simp add: Getenv_def)
  have h30: "Getenv ?e30 ''JWT_EXPIRES_IN'' = ''30'' @ ''m''" "''30'' \<noteq> []"
    "list_all isDigit ''30''" "unitMap ''m'' = Some 60000000000"
    by (simp_all add: Getenv_def isDigit_def unitMap_def)
  have h48: "Getenv ?e48 ''JWT_EXPIRES_IN'' = ''48''" "''48'' \<noteq> []" "list_all isDigit ''48''"
    by (simp_all add: Getenv_def isDigit_def)
  have n48: "\<not> ContainsAny ''48'' ''hms''"
    using h48(3) by (rule digits_no_unit)
  have v30: "decimal ''30'' * 60000000000 = 1800000000000" and v48: "decimal ''48'' = 48"
    by (simp_all add: decimal_def digitVal_def)
  note i0 = JWT_ExpiresIn_setting [where env = Map.empty and fl = exactFraction]
  note i30 = JWT_ExpiresIn_setting [where env = ?e30 and fl = exactFraction and ds = "''30''"
      and u = "''m''" and m = 60000000000 and b = zeroBytes and now = 5 and userID = 7
      and st = Map.empty]
  note i48 = JWT_ExpiresIn_setting [where env = ?e48 and fl = exactFraction and ds = "''48''"
      and b = zeroBytes and now = 5 and userID = 7 and st = Map.empty]
  from i0 h0 have r0: "JWT_ExpiresIn exactFraction Map.empty = 24 * Hour"
    by blast
  from i30 h30 have
    "JWT_ExpiresIn exactFraction ?e30 =
       (if decimal ''30'' * 60000000000 \<le> 2 ^ 63 - 1 then int (decimal ''30'' * 60000000000)
        else 24 * Hour)"
    and "GenerateToken exactFraction (Some zeroBytes) ?e30 5 7 Map.empty =
        (if decimal ''30'' * 60000000000 \<le> 2 ^ 63 - 1
         then (Inr (EncodeToString zeroBytes),
               [EncodeToString zeroBytes \<mapsto>
                    \<lparr>sessionData.UserID = 7, ExpiresAt = 5 + int (decimal ''30'' * 60000000000)\<rparr>])
         else (Inl InvalidExpiresIn, Map.empty))"
    by blast+
  then have r30: "JWT_ExpiresIn exactFraction ?e30 = 30 * Minute"
    and g30: "GenerateToken exactFraction (Some zeroBytes) ?e30 5 7 Map.empty
     = (Inr (EncodeToString zeroBytes),
        [EncodeToString zeroBytes \<mapsto> \<lparr>sessionData.UserID = 7, ExpiresAt = 5 + 30 * Minute\<rparr>])"
    unfolding v30 by (simp_all add: Hour_eval)
  from i48 h48 have "JWT_ExpiresIn exactFraction ?e48 =
        (if decimal ''48'' \<le> 2562047 then int (decimal ''48'') * Hour else 24 * Hour)"
    by blast
  then have r48: "JWT_ExpiresIn exactFraction ?e48 = 48 * Hour"
    unfolding v48 by simp
  from h48 n48 have "Getenv ?e48 ''JWT_EXPIRES_IN'' \<noteq> [] \<and>
      \<not> ContainsAny (Getenv ?e48 ''JWT_EXPIRES_IN'') ''hms''"
    by simp
  with i48 have "GenerateToken exactFraction (Some zeroBytes) ?e48 5 7 Map.empty =
        (if Getenv ?e48 ''JWT_EXPIRES_IN'' = ''0'' \<or> Getenv ?e48 ''JWT_EXPIRES_IN'' = ''+0''
            \<or> Getenv ?e48 ''JWT_EXPIRES_IN'' = ''-0''
         then (Inr (EncodeToString zeroBytes),
               [EncodeToString zeroBytes \<mapsto> \<lparr>sessionData.UserID = 7, ExpiresAt = 5\<rparr>])
         else (Inl InvalidExpiresIn, Map.empty))"
    by blast
  then have g48: "GenerateToken exactFraction (Some zeroBytes) ?e48 5 7 Map.empty
     = (Inl InvalidExpiresIn, Map.empty)"
    unfolding h48(1) by simp
  from h0 r0 h30 r30 g30 h48(1,3) n48 r48 g48 show ?thesis
    by (intro conjI) assumption+
qed

section \<open>Properties of the table of sessions as a whole\<close>

text \<open>
  C7, as the code has it. The specification says that no operation rewrites an entry.
  \<open>GenerateToken\<close> assigns to the table under the new identifier without looking whether
  the identifier is there already; when the random source repeats an identifier, the old
  entry gets the new user id and expiry. Amended: \<open>GenerateToken\<close> leaves every entry
  under another identifier as it is, so when the new identifier is not in the table yet,
  every entry of the table is unchanged and one is added; on an error it leaves the
  table as it is. \<open>ValidateToken\<close> and \<open>CleanupSessions\<close> only delete: every entry of the
  table after the call is an entry of the table before it. \<open>ValidateToken\<close> on a session
  that has not expired leaves the table identical.
\<close>

theorem store_entries_never_rewritten:
  "(st (EncodeToString b) = None \<longrightarrow>
      st \<subseteq>\<^sub>m snd (GenerateToken fl (Some b) env now userID st)) \<and>
   (k \<noteq> EncodeToString b \<longrightarrow>
      snd (GenerateToken fl (Some b) env now userID st) k = st k) \<and>
   snd (GenerateToken fl None env now userID st) = st \<and>
   snd (ValidateToken sessionID now st) \<subseteq>\<^sub>m st \<and>
   CleanupSessions now ids st \<subseteq>\<^sub>m st \<and>
   (st sessionID = Some session \<and> now \<le> ExpiresAt session \<longrightarrow>
      snd (ValidateToken sessionID now st) = st)"
  by (auto simp: GenerateToken_def Let_def ValidateToken_def After_def map_le_def
        CleanupSessions_apply dom_def split: option.splits if_splits)

text \<open>
  The random source gives the bytes of an identifier that is in the table; the entry of
  user 1 becomes an entry of user 2 with a new expiry.
\<close>

theorem GenerateToken_overwrites_counterexample:
  "[EncodeToString zeroBytes \<mapsto> \<lparr>sessionData.UserID = 1, ExpiresAt = 10\<rparr>]
       (EncodeToString zeroBytes)
     = Some \<lparr>sessionData.UserID = 1, ExpiresAt = 10\<rparr> \<and>
   snd (GenerateToken exactFraction (Some zeroBytes) Map.empty 5 2
          [EncodeToString zeroBytes \<mapsto> \<lparr>sessionData.UserID = 1, ExpiresAt = 10\<rparr>])
       (EncodeToString zeroBytes)
     = Some \<lparr>sessionData.UserID = 2, ExpiresAt = 5 + 24 * Hour\<rparr>"
  by (simp add: GenerateToken_def Getenv_def ParseDuration_24h Add_def Let_def)

theorem store_entries_never_rewritten_witness:
  "Map.empty (EncodeToString zeroBytes) = (None :: sessionData option) \<and>
   Map.empty \<subseteq>\<^sub>m snd (GenerateToken exactFraction (Some zeroBytes) Map.empty 5 7 Map.empty) \<and>
   [''a'' \<mapsto> \<lparr>sessionData.UserID = 1, ExpiresAt = 10\<rparr>] ''a''
     = Some \<lparr>sessionData.UserID = 1, ExpiresAt = 10\<rparr> \<and>
   (9::int) \<le> ExpiresAt \<lparr>sessionData.UserID = 1::uint, ExpiresAt = 10\<rparr> \<and>
   snd (ValidateToken ''a'' 9 [''a'' \<mapsto> \<lparr>sessionData.UserID = 1, ExpiresAt = 10\<rparr>])
     = [''a'' \<mapsto> \<lparr>sessionData.UserID = 1, ExpiresAt = 10\<rparr>]"
  using store_entries_never_rewritten
    [of Map.empty zeroBytes exactFraction Map.empty 5 7]
    store_entries_never_rewritten
    [of "[''a'' \<mapsto> \<lparr>sessionData.UserID = 1, ExpiresAt = 10\<rparr>]" zeroBytes exactFraction
        Map.empty 9 7 "''a''" "''a''" "[]" "\<lparr>sessionData.UserID = 1, ExpiresAt = 10\<rparr>"]
  by simp

section \<open>Properties of the task service\<close>

text \<open>
  C8. Every task operation keeps a task away from a user who does not own it. Let the
  task \<open>t\<close> be a row of the table, whose primary keys are distinct, and let the
  requesting user id differ from the owner of \<open>t\<close>. Get by id, update, update status
  and delete, called with the id of \<open>t\<close>, look the row up by id and user id together:
  they report "task not found" (when the database answers at all; its failure is
  reported as such), return no task and leave the table as it is. The list operation
  takes no task id; it selects by the user id: \<open>t\<close> is not among the tasks it returns,
  every task it returns is owned by the requesting user, and its whole answer, counts
  included, is the one it gives when \<open>t\<close> is not in the table.
\<close>

theorem task_hidden_from_other_user:
  assumes "distinct (map Task.ID (rows db))" and "t \<in> set (rows db)"
    and "Task.UserID t \<noteq> userID"
    and "TaskRequest.UserID req = userID"
    and "TaskStatusRequest.UserID sreq = userID"
    and "TaskFilterOptions.UserID options = userID"
  shows "GetTaskByID db (Task.ID t) userID
           = Inl (if available db then TaskNotFound else FailedToRetrieveTask) \<and>
         UpdateTask db now (Task.ID t) req
           = (Inl (if available db then TaskNotFound else FailedToRetrieveTask), db) \<and>
         UpdateTaskStatus db now (Task.ID t) sreq
           = (Inl (if available db then TaskNotFound else FailedToRetrieveTask), db) \<and>
         DeleteTask db now (Task.ID t) userID
           = (Some (if available db then TaskNotFound else FailedToRetrieveTask), db) \<and>
         (\<forall>resp. GetTasks orderBy db options = Inr resp \<longrightarrow>
            t \<notin> set (Tasks resp) \<and> (\<forall>u \<in> set (Tasks resp). Task.UserID u = userID)) \<and>
         GetTasks orderBy (db\<lparr>rows := removeAll t (rows db)\<rparr>) options
           = GetTasks orderBy db options"
proof -
  note get = GetTaskByID_other_owner [OF assms(1-3)]
  have upd: "UpdateTask db now (Task.ID t) req
      = (Inl (if available db then TaskNotFound else FailedToRetrieveTask), db)"
    using get assms(4) by (simp add: UpdateTask_def)
  have st: "UpdateTaskStatus db now (Task.ID t) sreq
      = (Inl (if available db then TaskNotFound else FailedToRetrieveTask), db)"
    using get assms(5) by (simp add: UpdateTaskStatus_def)
  have del: "DeleteTask db now (Task.ID t) userID
      = (Some (if available db then TaskNotFound else FailedToRetrieveTask), db)"
    using get by (simp add: DeleteTask_def)
  have own: "\<And>u. u \<in> set (matching db userID
        (TaskFilterOptions.Status options) (TaskFilterOptions.Priority options))
      \<Longrightarrow> Task.UserID u = userID"
    by (simp add: matching_def)
  have list: "\<forall>resp. GetTasks orderBy db options = Inr resp \<longrightarrow>
      t \<notin> set (Tasks resp) \<and> (\<forall>u \<in> set (Tasks resp). Task.UserID u = userID)"
  proof (intro allI impI)
    fix resp
    assume r: "GetTasks orderBy db options = Inr resp"
    from GetTasks_Find [OF r] have "set (Tasks resp) \<subseteq> set (matching db userID
          (TaskFilterOptions.Status options) (TaskFilterOptions.Priority options))"
      by (auto simp: assms(6) dest: Find_subset)
    with own assms(3)
    show "t \<notin> set (Tasks resp) \<and> (\<forall>u \<in> set (Tasks resp). Task.UserID u = userID)"
      by blast
  qed
  have same: "GetTasks orderBy (db\<lparr>rows := removeAll t (rows db)\<rparr>) options
      = GetTasks orderBy db options"
  proof -
    let ?db = "db\<lparr>rows := removeAll t (rows db)\<rparr>"
    have c: "Count ?db userID status priority = Count db userID status priority"
      for status priority
      by (simp add: Count_def matching_without [OF assms(3)])
    have f: "Find orderBy ?db userID status priority clause limit offset
        = Find orderBy db userID status priority clause limit offset"
      for status priority clause limit offset
      by (simp add: Find_def matching_without [OF assms(3)] split: option.splits)
    show ?thesis
      by (simp add: GetTasks_def Let_def assms(6) c f cong: sum.case_cong)
  qed
  from get upd st del list same show ?thesis by blast
qed

theorem task_hidden_from_other_user_witness:
  "distinct (map Task.ID (rows exampleDB)) \<and>
   exampleRow 2 2 \<in> set (rows exampleDB) \<and>
   Task.UserID (exampleRow 2 2) \<noteq> 1 \<and>
   TaskFilterOptions.UserID exampleOptions = 1 \<and>
   GetTaskByID exampleDB 2 1 = Inl TaskNotFound \<and>
   DeleteTask exampleDB 9 2 1 = (Some TaskNotFound, exampleDB) \<and>
   GetTasks (\<lambda>clause. Some (\<lambda>a b. True)) exampleDB exampleOptions
     = Inr \<lparr>Tasks = [exampleRow 1 1], CurrentPage = 1, PaginatedTasksResponse.PageSize = 10,
            TotalItems = 1, TotalPages = 1\<rparr> \<and>
   exampleRow 2 2 \<notin> set [exampleRow 1 1]"
proof -
  let ?req = "\<lparr>TaskRequest.Title = [], TaskRequest.Description = [],
                TaskRequest.DueDate = None, TaskRequest.Priority = [],
                TaskRequest.UserID = 1\<rparr>"
  let ?sreq = "\<lparr>TaskStatusRequest.Status = ''completed'', TaskStatusRequest.UserID = 1\<rparr>"
  have h1: "distinct (map Task.ID (rows exampleDB))"
    by (simp add: exampleDB_def exampleRow_def)
  have h2: "exampleRow 2 2 \<in> set (rows exampleDB)"
    by (simp add: exampleDB_def)
  have h3: "Task.UserID (exampleRow 2 2) \<noteq> 1"
    by (simp add: exampleRow_def)
  have h4: "TaskRequest.UserID ?req = 1" by simp
  have h5: "TaskStatusRequest.UserID ?sreq = 1" by simp
  have h6: "TaskFilterOptions.UserID exampleOptions = 1"
    by (simp add: exampleOptions_def)
  have i: "Task.ID (exampleRow 2 2) = 2" and a: "available exampleDB"
    by (simp_all add: exampleRow_def exampleDB_def)
  note inst = task_hidden_from_other_user [OF h1 h2 h3 h4 h5 h6,
      of 9 "\<lambda>clause. Some (\<lambda>a b. True)"]
  from inst i a have g: "GetTaskByID exampleDB 2 1 = Inl TaskNotFound"
    and d: "DeleteTask exampleDB 9 2 1 = (Some TaskNotFound, exampleDB)"
    by simp_all
  have l: "GetTasks (\<lambda>clause. Some (\<lambda>a b. True)) exampleDB exampleOptions
     = Inr \<lparr>Tasks = [exampleRow 1 1], CurrentPage = 1, PaginatedTasksResponse.PageSize = 10,
            TotalItems = 1, TotalPages = 1\<rparr>"
    by (simp add: GetTasks_def Count_def Find_def matching_def live_def orderRows_def
          exampleDB_def exampleOptions_def exampleRow_def)
  from inst l have n: "exampleRow 2 2 \<notin> set [exampleRow 1 1]"
    by simp
  from h1 h2 h3 h6 g d l n show ?thesis by blast
qed

section \<open>Failures of the session authority\<close>

text \<open>
  C9. \<open>ValidateToken\<close> on the empty string fails with the empty-credential error
  (\<open>EmptySessionID\<close>, "empty session ID"), and on any other identifier that has no entry
  in the table it fails with the not-found error (\<open>InvalidSession\<close>, "invalid session").
  The table is left as it was in both cases. The empty check comes first in the source,
  so the second part is about non-empty identifiers.
\<close>

theorem ValidateToken_empty_or_absent:
  "ValidateToken [] now st = (Inl EmptySessionID, st) \<and>
   (sessionID \<noteq> [] \<and> st sessionID = None \<longrightarrow>
      ValidateToken sessionID now st = (Inl InvalidSession, st))"
  by (simp add: ValidateToken_def)

theorem ValidateToken_empty_or_absent_witness:
  "ValidateToken [] 5 Map.empty = (Inl EmptySessionID, Map.empty) \<and>
   ''not-a-real-id'' \<noteq> [] \<and> (Map.empty :: store) ''not-a-real-id'' = None \<and>
   ValidateToken ''not-a-real-id'' 5 Map.empty = (Inl InvalidSession, Map.empty)"
  using ValidateToken_empty_or_absent [of 5 Map.empty "''not-a-real-id''"] by simp

text \<open>
  C10. \<open>GenerateToken\<close> writes all or nothing: whenever it returns an error, be it for
  the random source or for a value of \<open>JWT_EXPIRES_IN\<close> that does not parse, the table
  of sessions is the one it was called with; no entry was added for the failed call.
\<close>

theorem GenerateToken_error_leaves_store:
  "fst (GenerateToken fl rnd env now userID st) = Inl err \<Longrightarrow>
   snd (GenerateToken fl rnd env now userID st) = st"
  by (auto simp: GenerateToken_def Let_def split: option.splits)

theorem GenerateToken_error_leaves_store_witness:
  "fst (GenerateToken exactFraction (Some zeroBytes) [''JWT_EXPIRES_IN'' \<mapsto> ''abc''] 5 7
          [''a'' \<mapsto> \<lparr>sessionData.UserID = 1, ExpiresAt = 10\<rparr>]) = Inl InvalidExpiresIn \<and>
   snd (GenerateToken exactFraction (Some zeroBytes) [''JWT_EXPIRES_IN'' \<mapsto> ''abc''] 5 7
          [''a'' \<mapsto> \<lparr>sessionData.UserID = 1, ExpiresAt = 10\<rparr>])
     = [''a'' \<mapsto> \<lparr>sessionData.UserID = 1, ExpiresAt = 10\<rparr>] \<and>
   fst (GenerateToken exactFraction None Map.empty 5 7
          [''a'' \<mapsto> \<lparr>sessionData.UserID = 1, ExpiresAt = 10\<rparr>]) = Inl RandomBytesFailed \<and>
   snd (GenerateToken exactFraction None Map.empty 5 7
          [''a'' \<mapsto> \<lparr>sessionData.UserID = 1, ExpiresAt = 10\<rparr>])
     = [''a'' \<mapsto> \<lparr>sessionData.UserID = 1, ExpiresAt = 10\<rparr>]"
proof -
  let ?st = "[''a'' \<mapsto> \<lparr>sessionData.UserID = 1::uint, ExpiresAt = 10\<rparr>]"
  have e: "fst (GenerateToken exactFraction (Some zeroBytes) [''JWT_EXPIRES_IN'' \<mapsto> ''abc''] 5 7
          ?st) = Inl InvalidExpiresIn"
    by (simp add: GenerateToken_def Getenv_def ParseDuration_eval)
  have r: "fst (GenerateToken exactFraction None Map.empty 5 7 ?st) = Inl RandomBytesFailed"
    by (simp add: GenerateToken_def)
  from e r GenerateToken_error_leaves_store [OF e] GenerateToken_error_leaves_store [OF r]
  show ?thesis by blast
qed

end
